theory Spec2Isabelle
  imports Complex_Main
begin

section \<open>Double precision values\<close>

text \<open>
  A C++ \<open>double\<close> is modelled as an exact real number, or as the single value \<open>NonFin\<close>
  that stands for every non-finite result (an infinity or a NaN). Rounding and overflow
  are not modelled. Division by zero and the square root of a negative number are
  \<open>NonFin\<close>, as they are non-finite in IEEE arithmetic, and \<open>NonFin\<close> is absorbing.
  In \<^verbatim>\<open>dielec.cpp\<close> a non-finite intermediate value only ever occurs in a
  numerator, a factor or a summand when the inputs are finite, where IEEE arithmetic
  gives a non-finite result again, so that absorption is what the program does.
  Equality of two \<open>NonFin\<close> values only says that both results are non-finite.

  This model carries the statements that compare the loops with the real formulas.
  The statements on comparisons of doubles, on zero denominators and on the number of
  grid points are made in the second embedding, with rounding and the special values
  of IEEE 754, further down.
\<close>

datatype dbl = Fin real | NonFin

instantiation dbl :: "{zero, one, plus, minus, times, inverse}"
begin

definition zero_dbl :: dbl where "zero_dbl = Fin 0"

definition one_dbl :: dbl where "one_dbl = Fin 1"

fun plus_dbl :: "dbl \<Rightarrow> dbl \<Rightarrow> dbl" where
  "plus_dbl (Fin a) (Fin b) = Fin (a + b)"
| "plus_dbl _ _ = NonFin"

fun minus_dbl :: "dbl \<Rightarrow> dbl \<Rightarrow> dbl" where
  "minus_dbl (Fin a) (Fin b) = Fin (a - b)"
| "minus_dbl _ _ = NonFin"

fun times_dbl :: "dbl \<Rightarrow> dbl \<Rightarrow> dbl" where
  "times_dbl (Fin a) (Fin b) = Fin (a * b)"
| "times_dbl _ _ = NonFin"

fun divide_dbl :: "dbl \<Rightarrow> dbl \<Rightarrow> dbl" where
  "divide_dbl (Fin a) (Fin b) = (if b = 0 then NonFin else Fin (a / b))"
| "divide_dbl _ _ = NonFin"

fun inverse_dbl :: "dbl \<Rightarrow> dbl" where
  "inverse_dbl (Fin a) = (if a = 0 then NonFin else Fin (1 / a))"
| "inverse_dbl NonFin = NonFin"

instance ..

end

text \<open>Sums of doubles: addition is a commutative monoid, since \<open>NonFin\<close> absorbs.\<close>

instance dbl :: comm_monoid_add
proof
  fix x y z :: dbl
  show "0 + x = x"
    by (cases x) (simp_all add: zero_dbl_def)
  show "x + y = y + x"
    by (cases x; cases y) simp_all
  show "x + y + z = x + (y + z)"
    by (cases x; cases y; cases z) simp_all
qed

instance dbl :: comm_monoid_mult
proof
  fix x y z :: dbl
  show "1 * x = x"
    by (cases x) (simp_all add: one_dbl_def)
  show "x * y = y * x"
    by (cases x; cases y) simp_all
  show "x * y * z = x * (y * z)"
    by (cases x; cases y; cases z) simp_all
qed

text \<open>\<open>std::sqrt\<close>: a NaN below zero.\<close>

fun dsqrt :: "dbl \<Rightarrow> dbl" where
  "dsqrt (Fin a) = (if a < 0 then NonFin else Fin (sqrt a))"
| "dsqrt NonFin = NonFin"

text \<open>\<open>std::complex<double>\<close>, with \<open>operator/=\<close> by a scalar, \<open>real()\<close> and \<open>std::norm\<close>.\<close>

record dcomplex =
  creal :: dbl
  cimag :: dbl

definition cdiv_scalar :: "dcomplex \<Rightarrow> dbl \<Rightarrow> dcomplex" where
  "cdiv_scalar z s = \<lparr>creal = creal z / s, cimag = cimag z / s\<rparr>"

definition cnorm :: "dcomplex \<Rightarrow> dbl" where
  "cnorm z = creal z * creal z + cimag z * cimag z"

definition of_complex :: "complex \<Rightarrow> dcomplex" where
  "of_complex z = \<lparr>creal = Fin (Re z), cimag = Fin (Im z)\<rparr>"

section \<open>Loops over raw arrays\<close>

text \<open>
  An array behind a raw pointer is the function from its indices to its cells; the
  length travels separately, as in the source. \<open>for_fill lo hi g a\<close> is the loop
  \<open>for (k = lo; k < hi; ++k) a[k] = g k a[k]\<close>, and \<open>for_sum lo hi f\<close> is the loop
  \<open>acc = 0.0; for (k = lo; k < hi; ++k) acc += f k\<close>.
\<close>

definition for_fill :: "nat \<Rightarrow> nat \<Rightarrow> (nat \<Rightarrow> 'a \<Rightarrow> 'a) \<Rightarrow> (nat \<Rightarrow> 'a) \<Rightarrow> (nat \<Rightarrow> 'a)" where
  "for_fill lo hi g a = fold (\<lambda>k b. b(k := g k (b k))) [lo..<hi] a"

definition for_sum :: "nat \<Rightarrow> nat \<Rightarrow> (nat \<Rightarrow> dbl) \<Rightarrow> dbl" where
  "for_sum lo hi f = fold (\<lambda>k acc. acc + f k) [lo..<hi] 0"

section \<open>The objects the computation reads\<close>

text \<open>
  The numeric constants of \<open>constants.h\<close> (\<open>pi\<close>, \<open>time_ry\<close>, \<open>Hz_to_kayser\<close>,
  \<open>amu_ry\<close>) are parameters of the model.
\<close>

record constants =
  c_pi :: real
  time_ry :: real
  Hz_to_kayser :: real
  amu_ry :: real

text \<open>
  Of \<open>System\<close> the masses, the map from the atoms of the primitive cell to those of the
  supercell and the volume of the primitive cell; of \<open>Dynamical\<close> the number of modes, the
  pointer to the Born charge table (null until \<open>setup_dielectric\<close> has run), the name of
  the Born charge file and the projection directions.
\<close>

record system =
  mass :: "nat \<Rightarrow> real"
  map_p2s :: "nat \<Rightarrow> nat \<Rightarrow> nat"
  volume_p :: real

record dynamical =
  neval :: nat
  borncharge :: "(nat \<Rightarrow> nat \<Rightarrow> nat \<Rightarrow> real) option"
  file_born :: string
  projection_directions :: "real list list"

text \<open>
  \<open>exitall (where, what)\<close> reports and ends the program: \<open>ExitAll where what\<close>.
  \<open>Undefined\<close> marks the places where C++ leaves the behaviour undefined.
\<close>

datatype error =
  ExitAll string string
  | Undefined string

section \<open>\<open>Dielec::compute_dielectric_function\<close>\<close>

text \<open>Lines 157-161: the eigenvectors are divided in place.\<close>

definition sqrt_mass :: "system \<Rightarrow> nat \<Rightarrow> dbl" where
  "sqrt_mass sys j = dsqrt (Fin (mass sys (map_p2s sys (j div 3) 0)))"

definition normalize_evec_in :: "system \<Rightarrow> nat \<Rightarrow> (nat \<Rightarrow> nat \<Rightarrow> dcomplex) \<Rightarrow> nat \<Rightarrow> nat \<Rightarrow> dcomplex" where
  "normalize_evec_in sys ns evec_in =
     for_fill 0 ns (\<lambda>i. for_fill 0 ns (\<lambda>j z. cdiv_scalar z (sqrt_mass sys j))) evec_in"

text \<open>Lines 181-189.\<close>

definition fill_zstar_u ::
  "(nat \<Rightarrow> nat \<Rightarrow> nat \<Rightarrow> real) \<Rightarrow> nat \<Rightarrow> (nat \<Rightarrow> nat \<Rightarrow> dcomplex) \<Rightarrow> (nat \<Rightarrow> nat \<Rightarrow> dbl) \<Rightarrow> nat \<Rightarrow> nat \<Rightarrow> dbl" where
  "fill_zstar_u zstar ns evec_in zstar_u =
     for_fill 0 3 (\<lambda>i. for_fill 0 ns (\<lambda>is _.
       for_sum 0 ns (\<lambda>j. Fin (zstar (j div 3) i (j mod 3)) * creal (evec_in is j)))) zstar_u"

text \<open>Lines 214-220.\<close>

definition fill_s_born ::
  "nat \<Rightarrow> (nat \<Rightarrow> nat \<Rightarrow> dbl) \<Rightarrow> (nat \<Rightarrow> nat \<Rightarrow> nat \<Rightarrow> dbl) \<Rightarrow> nat \<Rightarrow> nat \<Rightarrow> nat \<Rightarrow> dbl" where
  "fill_s_born ns zstar_u s_born =
     for_fill 0 3 (\<lambda>i. for_fill 0 3 (\<lambda>j. for_fill 0 ns (\<lambda>is _.
       zstar_u i is * zstar_u j is))) s_born"

text \<open>
  Lines 222-238. The source accumulates in the cell \<open>dielec_out[iomega][i][j]\<close> itself,
  which no other array of the function overlaps; the model writes the finished value.
\<close>

definition freq_conv_factor :: "constants \<Rightarrow> dbl" where
  "freq_conv_factor c =
     Fin (time_ry c) * Fin (time_ry c) / (Fin (Hz_to_kayser c) * Fin (Hz_to_kayser c))"

definition factor :: "constants \<Rightarrow> system \<Rightarrow> dbl" where
  "factor c sys = Fin 8 * Fin (c_pi c) / Fin (volume_p sys)"

definition fill_dielec_out ::
  "constants \<Rightarrow> system \<Rightarrow> nat \<Rightarrow> nat \<Rightarrow> (nat \<Rightarrow> real) \<Rightarrow> (nat \<Rightarrow> real) \<Rightarrow>
   (nat \<Rightarrow> nat \<Rightarrow> nat \<Rightarrow> dbl) \<Rightarrow> (nat \<Rightarrow> nat \<Rightarrow> nat \<Rightarrow> dbl) \<Rightarrow> nat \<Rightarrow> nat \<Rightarrow> nat \<Rightarrow> dbl" where
  "fill_dielec_out c sys ns nomega_in omega_grid_in eval_in s_born dielec_out =
     for_fill 0 nomega_in (\<lambda>iomega.
       let w2_tmp = Fin (omega_grid_in iomega) * Fin (omega_grid_in iomega) * freq_conv_factor c
       in for_fill 0 3 (\<lambda>i. for_fill 0 3 (\<lambda>j _.
            for_sum 3 ns (\<lambda>is. s_born i j is / (Fin (eval_in is) - w2_tmp)) * factor c sys)))
       dielec_out"

text \<open>
  \<open>allocate\<close> hands out memory whose content the source never reads before writing it;
  the model starts such scratch arrays at zero.
\<close>

definition allocate2 :: "nat \<Rightarrow> nat \<Rightarrow> dbl" where
  "allocate2 = (\<lambda>_ _. 0)"

definition allocate3 :: "nat \<Rightarrow> nat \<Rightarrow> nat \<Rightarrow> dbl" where
  "allocate3 = (\<lambda>_ _ _. 0)"

text \<open>
  The function returns the caller's two arrays as it leaves them: \<open>evec_in\<close>, which it
  has overwritten, and \<open>dielec_out\<close>. The Born charge table is read through the pointer
  \<open>dynamical->borncharge\<close>; a null pointer is dereferenced as soon as there is a mode.
\<close>

definition compute_dielectric_function ::
  "constants \<Rightarrow> dynamical \<Rightarrow> system \<Rightarrow> nat \<Rightarrow> (nat \<Rightarrow> real) \<Rightarrow> (nat \<Rightarrow> real) \<Rightarrow>
   (nat \<Rightarrow> nat \<Rightarrow> dcomplex) \<Rightarrow> (nat \<Rightarrow> nat \<Rightarrow> nat \<Rightarrow> dbl) \<Rightarrow>
   error + ((nat \<Rightarrow> nat \<Rightarrow> dcomplex) \<times> (nat \<Rightarrow> nat \<Rightarrow> nat \<Rightarrow> dbl))" where
  "compute_dielectric_function c dyn sys nomega_in omega_grid_in eval_in evec_in dielec_out =
     (let ns = neval dyn in
      case borncharge dyn of
        None \<Rightarrow>
          if 0 < ns then Inl (Undefined ''null borncharge'')
          else Inr (evec_in,
                 fill_dielec_out c sys ns nomega_in omega_grid_in eval_in allocate3 dielec_out)
      | Some zstar \<Rightarrow>
          let evec1 = normalize_evec_in sys ns evec_in;
              zstar_u = fill_zstar_u zstar ns evec1 allocate2;
              s_born = fill_s_born ns zstar_u allocate3
          in Inr (evec1,
               fill_dielec_out c sys ns nomega_in omega_grid_in eval_in s_born dielec_out))"


text \<open>Reading one cell of each of the two arrays that the function returns.\<close>

definition dielec_entry ::
  "error + ((nat \<Rightarrow> nat \<Rightarrow> dcomplex) \<times> (nat \<Rightarrow> nat \<Rightarrow> nat \<Rightarrow> dbl)) \<Rightarrow> nat \<Rightarrow> nat \<Rightarrow> nat \<Rightarrow> dbl option" where
  "dielec_entry r k i j = (case r of Inl e \<Rightarrow> None | Inr (ev, d) \<Rightarrow> Some (d k i j))"

definition evec_entry ::
  "error + ((nat \<Rightarrow> nat \<Rightarrow> dcomplex) \<times> (nat \<Rightarrow> nat \<Rightarrow> nat \<Rightarrow> dbl)) \<Rightarrow> nat \<Rightarrow> nat \<Rightarrow> dcomplex option" where
  "evec_entry r i j = (case r of Inl e \<Rightarrow> None | Inr (ev, d) \<Rightarrow> Some (ev i j))"

text \<open>The formulas of the specification, written with sums.\<close>

definition zstar_u_spec ::
  "(nat \<Rightarrow> nat \<Rightarrow> nat \<Rightarrow> real) \<Rightarrow> system \<Rightarrow> nat \<Rightarrow> (nat \<Rightarrow> nat \<Rightarrow> dcomplex) \<Rightarrow> nat \<Rightarrow> nat \<Rightarrow> dbl" where
  "zstar_u_spec zstar sys ns evec i is =
     (\<Sum>j<ns. Fin (zstar (j div 3) i (j mod 3)) * creal (cdiv_scalar (evec is j) (sqrt_mass sys j)))"

definition omega_conv2 :: "constants \<Rightarrow> real \<Rightarrow> dbl" where
  "omega_conv2 c w = Fin w * Fin w * freq_conv_factor c"


section \<open>\<open>Dielec::compute_mode_effective_charge\<close> and \<open>Dielec::get_zstar_mode\<close>\<close>

text \<open>
  The eigensolver, the projection of degenerate eigenvectors and the loader of the Born
  charges belong to other classes; they are parameters. The solver's eigenvectors are
  finite complex numbers.
\<close>

record externals =
  eval_k :: "dynamical \<Rightarrow> system \<Rightarrow> real list \<Rightarrow> (nat \<Rightarrow> real) \<times> (nat \<Rightarrow> nat \<Rightarrow> complex)"
  project_degenerate_eigenvectors ::
    "dynamical \<Rightarrow> system \<Rightarrow> real list \<Rightarrow> real list list \<Rightarrow> nat \<Rightarrow> nat \<Rightarrow> complex"
  setup_dielectric :: "nat \<Rightarrow> dynamical \<Rightarrow> dynamical"

text \<open>Lines 262-266 (and 93-97 in \<open>init\<close>): the Born charges are loaded when the pointer is null.\<close>

definition born_ready :: "externals \<Rightarrow> nat \<Rightarrow> dynamical \<Rightarrow> dynamical" where
  "born_ready ext verbosity_level dyn =
     (if borncharge dyn = None then setup_dielectric ext verbosity_level dyn else dyn)"

text \<open>Lines 277-291: the eigenvectors at the zone centre.\<close>

definition mode_evec :: "externals \<Rightarrow> dynamical \<Rightarrow> system \<Rightarrow> nat \<Rightarrow> nat \<Rightarrow> complex" where
  "mode_evec ext dyn sys =
     (let xk = [0, 0, 0] in
      if projection_directions dyn \<noteq> []
      then project_degenerate_eigenvectors ext dyn sys xk (projection_directions dyn)
      else snd (eval_k ext dyn sys xk))"

text \<open>Lines 293-299: the divisor is \<open>sqrt (mass / amu_ry)\<close> here.\<close>

definition sqrt_mass_amu :: "constants \<Rightarrow> system \<Rightarrow> nat \<Rightarrow> dbl" where
  "sqrt_mass_amu c sys j = dsqrt (Fin (mass sys (map_p2s sys (j div 3) 0)) / Fin (amu_ry c))"

definition normalize_evec_amu ::
  "constants \<Rightarrow> system \<Rightarrow> nat \<Rightarrow> (nat \<Rightarrow> nat \<Rightarrow> dcomplex) \<Rightarrow> nat \<Rightarrow> nat \<Rightarrow> dcomplex" where
  "normalize_evec_amu c sys ns evec =
     for_fill 0 ns (\<lambda>i. for_fill 0 ns (\<lambda>j z. cdiv_scalar z (sqrt_mass_amu c sys j))) evec"

text \<open>
  \<open>zstar_mode\<close> is a \<open>std::vector\<close> of \<open>std::vector\<close>s, indexed without a check: the
  behaviour is undefined unless it has \<open>ns\<close> rows of three entries at least.
\<close>

definition set_entry :: "dbl list list \<Rightarrow> nat \<Rightarrow> nat \<Rightarrow> dbl \<Rightarrow> dbl list list" where
  "set_entry zm is i v = zm[is := (zm ! is)[i := v]]"

definition table_fits :: "nat \<Rightarrow> dbl list list \<Rightarrow> bool" where
  "table_fits ns zm = (ns \<le> length zm \<and> list_all (\<lambda>row. 3 \<le> length row) (take ns zm))"

text \<open>
  Lines 303-314. The inner loop, for one mode and one direction, returns the charge sum
  and the norm; the source keeps the first in the cell \<open>zstar_mode[is][i]\<close>.
\<close>

definition mode_sums ::
  "(nat \<Rightarrow> nat \<Rightarrow> nat \<Rightarrow> real) \<Rightarrow> nat \<Rightarrow> (nat \<Rightarrow> nat \<Rightarrow> dcomplex) \<Rightarrow> nat \<Rightarrow> nat \<Rightarrow> dbl \<times> dbl" where
  "mode_sums zstar_atom ns evec is i =
     fold (\<lambda>j (z, normalization_factor).
             (z + Fin (zstar_atom (j div 3) i (j mod 3)) * creal (evec is j),
              normalization_factor + cnorm (evec is j)))
       [0..<ns] (0, 0)"

definition fill_zstar_mode ::
  "(nat \<Rightarrow> nat \<Rightarrow> nat \<Rightarrow> real) \<Rightarrow> nat \<Rightarrow> (nat \<Rightarrow> nat \<Rightarrow> dcomplex) \<Rightarrow> bool \<Rightarrow> dbl list list \<Rightarrow> dbl list list" where
  "fill_zstar_mode zstar_atom ns evec do_normalize zstar_mode =
     fold (\<lambda>i. fold (\<lambda>is zm.
             let (z, normalization_factor) = mode_sums zstar_atom ns evec is i
             in set_entry zm is i (if do_normalize then z / dsqrt normalization_factor else z))
           [0..<ns])
       [0..<3] zstar_mode"

text \<open>
  Lines 252-318. The function is \<open>const\<close>, yet it may load the Born charges into
  \<open>dynamical\<close>, which is returned next to the table.
\<close>

definition compute_mode_effective_charge ::
  "constants \<Rightarrow> externals \<Rightarrow> dynamical \<Rightarrow> system \<Rightarrow> dbl list list \<Rightarrow> bool \<Rightarrow>
   error + (dynamical \<times> dbl list list)" where
  "compute_mode_effective_charge c ext dyn sys zstar_mode do_normalize =
     (if file_born dyn = []
      then Inl (ExitAll ''Dielec::compute_mode_effective_charge()''
                  ''BORNINFO must be set when DIELEC = 1.'')
      else
        let dyn1 = born_ready ext 0 dyn;
            ns = neval dyn1;
            evec = normalize_evec_amu c sys ns (\<lambda>i j. of_complex (mode_evec ext dyn1 sys i j))
        in if \<not> table_fits ns zstar_mode then Inl (Undefined ''zstar_mode index out of range'')
           else case borncharge dyn1 of
             None \<Rightarrow> if 0 < ns then Inl (Undefined ''null borncharge'') else Inr (dyn1, zstar_mode)
           | Some zstar_atom \<Rightarrow>
               Inr (dyn1, fill_zstar_mode zstar_atom ns evec do_normalize zstar_mode))"

text \<open>Lines 244-250.\<close>

definition get_zstar_mode ::
  "constants \<Rightarrow> externals \<Rightarrow> dynamical \<Rightarrow> system \<Rightarrow> error + (dynamical \<times> dbl list list)" where
  "get_zstar_mode c ext dyn sys =
     (let ns = neval dyn;
          zstar_mode = replicate ns (replicate 3 0)
      in compute_mode_effective_charge c ext dyn sys zstar_mode False)"

text \<open>Reading one entry of the returned table, and the squared length of one of its rows.\<close>

definition zmode_entry :: "error + (dynamical \<times> dbl list list) \<Rightarrow> nat \<Rightarrow> nat \<Rightarrow> dbl option" where
  "zmode_entry r is i = (case r of Inl e \<Rightarrow> None | Inr (dyn, zm) \<Rightarrow> Some (zm ! is ! i))"

definition zmode_sumsq :: "error + (dynamical \<times> dbl list list) \<Rightarrow> nat \<Rightarrow> dbl option" where
  "zmode_sumsq r is =
     (case r of Inl e \<Rightarrow> None
      | Inr (dyn, zm) \<Rightarrow> Some (zm ! is ! 0 * zm ! is ! 0 + zm ! is ! 1 * zm ! is ! 1 + zm ! is ! 2 * zm ! is ! 2))"

text \<open>The formulas of the specification for the mode effective charges.\<close>

definition zmode_sum :: "constants \<Rightarrow> (nat \<Rightarrow> nat \<Rightarrow> nat \<Rightarrow> real) \<Rightarrow> system \<Rightarrow> nat \<Rightarrow> (nat \<Rightarrow> nat \<Rightarrow> complex) \<Rightarrow> nat \<Rightarrow> nat \<Rightarrow> dbl" where
  "zmode_sum c z sys ns evec is i =
     (\<Sum>j<ns. Fin (z (j div 3) i (j mod 3)) *
               creal (cdiv_scalar (of_complex (evec is j)) (sqrt_mass_amu c sys j)))"

definition evec_norm :: "constants \<Rightarrow> system \<Rightarrow> nat \<Rightarrow> (nat \<Rightarrow> nat \<Rightarrow> complex) \<Rightarrow> nat \<Rightarrow> dbl" where
  "evec_norm c sys ns evec is =
     (\<Sum>j<ns. cnorm (cdiv_scalar (of_complex (evec is j)) (sqrt_mass_amu c sys j)))"

text \<open>
  The same two sums over the reals, for masses that are positive: then every
  intermediate value is finite.
\<close>

definition mass_amu :: "constants \<Rightarrow> system \<Rightarrow> nat \<Rightarrow> real" where
  "mass_amu c sys j = mass sys (map_p2s sys (j div 3) 0) / amu_ry c"

definition zmode_real ::
  "constants \<Rightarrow> (nat \<Rightarrow> nat \<Rightarrow> nat \<Rightarrow> real) \<Rightarrow> system \<Rightarrow> nat \<Rightarrow> (nat \<Rightarrow> nat \<Rightarrow> complex) \<Rightarrow> nat \<Rightarrow> nat \<Rightarrow> real" where
  "zmode_real c z sys ns evec is i =
     (\<Sum>j<ns. z (j div 3) i (j mod 3) * (Re (evec is j) / sqrt (mass_amu c sys j)))"

definition norm_real :: "constants \<Rightarrow> system \<Rightarrow> nat \<Rightarrow> (nat \<Rightarrow> nat \<Rightarrow> complex) \<Rightarrow> nat \<Rightarrow> real" where
  "norm_real c sys ns evec is =
     (\<Sum>j<ns. (Re (evec is j) / sqrt (mass_amu c sys j)) * (Re (evec is j) / sqrt (mass_amu c sys j)) +
              (Im (evec is j) / sqrt (mass_amu c sys j)) * (Im (evec is j) / sqrt (mass_amu c sys j)))"

section \<open>Double precision values with rounding\<close>

text \<open>
  Whether two entries compare equal, whether a denominator is zero and which integer a
  quotient is truncated to depend on the rounding of every operation and on the special
  values of IEEE 754. For the statements about these, the functions of
  \<^verbatim>\<open>dielec.cpp\<close> are embedded a second time, over the values below: a finite
  number \<open>Num r\<close> (\<open>Num 0\<close> is the positive zero), the negative zero, the two infinities
  and NaN. The numbers that the program reads (masses, volume, Born charges, eigenvalues,
  grid values and bounds, physical constants, the eigenvectors of the solver) are finite
  doubles and enter as \<open>Num\<close>; the eigenvector array that is passed to
  \<open>compute_dielectric_function\<close> may hold any values.

  Every operation has the rounding \<open>fl\<close> as a parameter: \<open>fl\<close> maps the exact result of
  one operation on finite operands, when that result is not zero, to the double that the
  operation returns, which is an infinity on overflow and may be a zero on underflow.
  Nothing is assumed about \<open>fl\<close>: what is proved for every \<open>fl\<close> holds for rounding to
  nearest. Every operation of the source rounds once, on its own: a product and the
  addition that follows it are two operations.
\<close>

datatype ieee = Num real | NegZero | PInf | MInf | NaN

fun is_zero :: "ieee \<Rightarrow> bool" where
  "is_zero (Num r) = (r = 0)"
| "is_zero NegZero = True"
| "is_zero _ = False"

fun is_inf :: "ieee \<Rightarrow> bool" where
  "is_inf PInf = True"
| "is_inf MInf = True"
| "is_inf _ = False"

fun is_finite :: "ieee \<Rightarrow> bool" where
  "is_finite (Num r) = True"
| "is_finite NegZero = True"
| "is_finite _ = False"

fun sign_bit :: "ieee \<Rightarrow> bool" where
  "sign_bit (Num r) = (r < 0)"
| "sign_bit NegZero = True"
| "sign_bit PInf = False"
| "sign_bit MInf = True"
| "sign_bit NaN = False"

fun val_of :: "ieee \<Rightarrow> real" where
  "val_of (Num r) = r"
| "val_of _ = 0"

text \<open>The zero and the infinity of a given sign (\<open>True\<close> is negative), and negation.\<close>

definition zero :: "bool \<Rightarrow> ieee" where
  "zero s = (if s then NegZero else Num 0)"

definition infinity :: "bool \<Rightarrow> ieee" where
  "infinity s = (if s then MInf else PInf)"

fun fneg :: "ieee \<Rightarrow> ieee" where
  "fneg (Num r) = (if r = 0 then NegZero else Num (- r))"
| "fneg NegZero = Num 0"
| "fneg PInf = MInf"
| "fneg MInf = PInf"
| "fneg NaN = NaN"

text \<open>
  Addition: NaN is absorbing, two infinities of opposite signs give NaN, an exact sum
  zero is \<open>+0\<close> unless both operands are \<open>-0\<close>, every other sum is rounded.
\<close>

definition fadd :: "(real \<Rightarrow> ieee) \<Rightarrow> ieee \<Rightarrow> ieee \<Rightarrow> ieee" where
  "fadd fl x y =
     (if x = NaN \<or> y = NaN then NaN
      else if is_inf x then (if is_inf y \<and> y \<noteq> x then NaN else x)
      else if is_inf y then y
      else if val_of x + val_of y = 0
        then (if x = NegZero \<and> y = NegZero then NegZero else Num 0)
      else fl (val_of x + val_of y))"

definition fsub :: "(real \<Rightarrow> ieee) \<Rightarrow> ieee \<Rightarrow> ieee \<Rightarrow> ieee" where
  "fsub fl x y = fadd fl x (fneg y)"

text \<open>
  Multiplication and division: the sign of a zero or an infinity is the exclusive or of
  the signs of the operands; \<open>0 * \<infinity>\<close>, \<open>0 / 0\<close> and \<open>\<infinity> / \<infinity>\<close> are NaN; a finite number other
  than zero divided by a zero is an infinity.
\<close>

definition fmul :: "(real \<Rightarrow> ieee) \<Rightarrow> ieee \<Rightarrow> ieee \<Rightarrow> ieee" where
  "fmul fl x y =
     (if x = NaN \<or> y = NaN then NaN
      else if is_inf x \<or> is_inf y
        then (if is_zero x \<or> is_zero y then NaN else infinity (sign_bit x \<noteq> sign_bit y))
      else if val_of x * val_of y = 0 then zero (sign_bit x \<noteq> sign_bit y)
      else fl (val_of x * val_of y))"

definition fdiv :: "(real \<Rightarrow> ieee) \<Rightarrow> ieee \<Rightarrow> ieee \<Rightarrow> ieee" where
  "fdiv fl x y =
     (if x = NaN \<or> y = NaN then NaN
      else if is_inf x then (if is_inf y then NaN else infinity (sign_bit x \<noteq> sign_bit y))
      else if is_inf y then zero (sign_bit x \<noteq> sign_bit y)
      else if is_zero y
        then (if is_zero x then NaN else infinity (sign_bit x \<noteq> sign_bit y))
      else if is_zero x then zero (sign_bit x \<noteq> sign_bit y)
      else fl (val_of x / val_of y))"

text \<open>\<open>std::sqrt\<close>: NaN for a negative number, \<open>-0\<close> for \<open>-0\<close>.\<close>

fun fsqrt :: "(real \<Rightarrow> ieee) \<Rightarrow> ieee \<Rightarrow> ieee" where
  "fsqrt fl (Num r) = (if r < 0 then NaN else if r = 0 then Num 0 else fl (sqrt r))"
| "fsqrt fl NegZero = NegZero"
| "fsqrt fl PInf = PInf"
| "fsqrt fl MInf = NaN"
| "fsqrt fl NaN = NaN"

text \<open>
  The operators \<open>==\<close> and \<open><\<close> of C++ on two doubles: NaN compares equal to nothing,
  itself included, and is less than nothing; the two zeros compare equal.
\<close>

definition cpp_eq :: "ieee \<Rightarrow> ieee \<Rightarrow> bool" where
  "cpp_eq x y = (x \<noteq> NaN \<and> y \<noteq> NaN \<and> (x = y \<or> (is_zero x \<and> is_zero y)))"


text \<open>
  \<open>std::complex<double>\<close>, its division by a \<open>double\<close> (both parts are divided) and
  \<open>std::norm\<close>.
\<close>

record fcomplex =
  freal :: ieee
  fimag :: ieee

definition cdiv_scalar_fl :: "(real \<Rightarrow> ieee) \<Rightarrow> fcomplex \<Rightarrow> ieee \<Rightarrow> fcomplex" where
  "cdiv_scalar_fl fl z s = \<lparr>freal = fdiv fl (freal z) s, fimag = fdiv fl (fimag z) s\<rparr>"

definition cnorm_fl :: "(real \<Rightarrow> ieee) \<Rightarrow> fcomplex \<Rightarrow> ieee" where
  "cnorm_fl fl z = fadd fl (fmul fl (freal z) (freal z)) (fmul fl (fimag z) (fimag z))"

definition of_complex_fl :: "complex \<Rightarrow> fcomplex" where
  "of_complex_fl z = \<lparr>freal = Num (Re z), fimag = Num (Im z)\<rparr>"

text \<open>The loop \<open>acc = 0.0; for (k = lo; k < hi; ++k) acc += f(k)\<close>, rounded at every step.\<close>

definition for_sum_fl :: "(real \<Rightarrow> ieee) \<Rightarrow> nat \<Rightarrow> nat \<Rightarrow> (nat \<Rightarrow> ieee) \<Rightarrow> ieee" where
  "for_sum_fl fl lo hi f = fold (\<lambda>k acc. fadd fl acc (f k)) [lo..<hi] (Num 0)"

section \<open>\<open>Dielec::compute_dielectric_function\<close> with rounding\<close>

text \<open>Lines 157-161, 178-186 and 211-217, operation by operation.\<close>

definition sqrt_mass_fl :: "(real \<Rightarrow> ieee) \<Rightarrow> system \<Rightarrow> nat \<Rightarrow> ieee" where
  "sqrt_mass_fl fl sys j = fsqrt fl (Num (mass sys (map_p2s sys (j div 3) 0)))"

definition normalize_evec_in_fl ::
  "(real \<Rightarrow> ieee) \<Rightarrow> system \<Rightarrow> nat \<Rightarrow> (nat \<Rightarrow> nat \<Rightarrow> fcomplex) \<Rightarrow> nat \<Rightarrow> nat \<Rightarrow> fcomplex" where
  "normalize_evec_in_fl fl sys ns evec_in =
     for_fill 0 ns (\<lambda>i. for_fill 0 ns (\<lambda>j z. cdiv_scalar_fl fl z (sqrt_mass_fl fl sys j))) evec_in"

definition fill_zstar_u_fl ::
  "(real \<Rightarrow> ieee) \<Rightarrow> (nat \<Rightarrow> nat \<Rightarrow> nat \<Rightarrow> real) \<Rightarrow> nat \<Rightarrow> (nat \<Rightarrow> nat \<Rightarrow> fcomplex) \<Rightarrow>
   (nat \<Rightarrow> nat \<Rightarrow> ieee) \<Rightarrow> nat \<Rightarrow> nat \<Rightarrow> ieee" where
  "fill_zstar_u_fl fl zstar ns evec_in zstar_u =
     for_fill 0 3 (\<lambda>i. for_fill 0 ns (\<lambda>is _.
       for_sum_fl fl 0 ns (\<lambda>j. fmul fl (Num (zstar (j div 3) i (j mod 3))) (freal (evec_in is j)))))
       zstar_u"

definition fill_s_born_fl ::
  "(real \<Rightarrow> ieee) \<Rightarrow> nat \<Rightarrow> (nat \<Rightarrow> nat \<Rightarrow> ieee) \<Rightarrow> (nat \<Rightarrow> nat \<Rightarrow> nat \<Rightarrow> ieee) \<Rightarrow>
   nat \<Rightarrow> nat \<Rightarrow> nat \<Rightarrow> ieee" where
  "fill_s_born_fl fl ns zstar_u s_born =
     for_fill 0 3 (\<lambda>i. for_fill 0 3 (\<lambda>j. for_fill 0 ns (\<lambda>is _.
       fmul fl (zstar_u i is) (zstar_u j is)))) s_born"

text \<open>
  Lines 219-238: \<open>freq_conv_factor\<close> is a quotient of two products, \<open>factor\<close> is
  \<open>8.0 * pi / volume_p\<close> evaluated from the left, \<open>w2_tmp\<close> is the square of the grid value
  times \<open>freq_conv_factor\<close>, and the denominator of a mode is \<open>eval_in[is] - w2_tmp\<close>.
\<close>

definition freq_conv_factor_fl :: "(real \<Rightarrow> ieee) \<Rightarrow> constants \<Rightarrow> ieee" where
  "freq_conv_factor_fl fl c =
     fdiv fl (fmul fl (Num (time_ry c)) (Num (time_ry c)))
       (fmul fl (Num (Hz_to_kayser c)) (Num (Hz_to_kayser c)))"

definition factor_fl :: "(real \<Rightarrow> ieee) \<Rightarrow> constants \<Rightarrow> system \<Rightarrow> ieee" where
  "factor_fl fl c sys = fdiv fl (fmul fl (Num 8) (Num (c_pi c))) (Num (volume_p sys))"

definition w2_tmp_fl :: "(real \<Rightarrow> ieee) \<Rightarrow> constants \<Rightarrow> real \<Rightarrow> ieee" where
  "w2_tmp_fl fl c w = fmul fl (fmul fl (Num w) (Num w)) (freq_conv_factor_fl fl c)"

definition fill_dielec_out_fl ::
  "(real \<Rightarrow> ieee) \<Rightarrow> constants \<Rightarrow> system \<Rightarrow> nat \<Rightarrow> nat \<Rightarrow> (nat \<Rightarrow> real) \<Rightarrow> (nat \<Rightarrow> real) \<Rightarrow>
   (nat \<Rightarrow> nat \<Rightarrow> nat \<Rightarrow> ieee) \<Rightarrow> (nat \<Rightarrow> nat \<Rightarrow> nat \<Rightarrow> ieee) \<Rightarrow> nat \<Rightarrow> nat \<Rightarrow> nat \<Rightarrow> ieee" where
  "fill_dielec_out_fl fl c sys ns nomega_in omega_grid_in eval_in s_born dielec_out =
     for_fill 0 nomega_in (\<lambda>iomega.
       let w2_tmp = w2_tmp_fl fl c (omega_grid_in iomega)
       in for_fill 0 3 (\<lambda>i. for_fill 0 3 (\<lambda>j _.
            fmul fl
              (for_sum_fl fl 3 ns (\<lambda>is. fdiv fl (s_born i j is) (fsub fl (Num (eval_in is)) w2_tmp)))
              (factor_fl fl c sys))))
       dielec_out"

definition allocate2_fl :: "nat \<Rightarrow> nat \<Rightarrow> ieee" where
  "allocate2_fl = (\<lambda>_ _. Num 0)"

definition allocate3_fl :: "nat \<Rightarrow> nat \<Rightarrow> nat \<Rightarrow> ieee" where
  "allocate3_fl = (\<lambda>_ _ _. Num 0)"

text \<open>Lines 136-242.\<close>

definition compute_dielectric_function_fl ::
  "(real \<Rightarrow> ieee) \<Rightarrow> constants \<Rightarrow> dynamical \<Rightarrow> system \<Rightarrow> nat \<Rightarrow> (nat \<Rightarrow> real) \<Rightarrow> (nat \<Rightarrow> real) \<Rightarrow>
   (nat \<Rightarrow> nat \<Rightarrow> fcomplex) \<Rightarrow> (nat \<Rightarrow> nat \<Rightarrow> nat \<Rightarrow> ieee) \<Rightarrow>
   error + ((nat \<Rightarrow> nat \<Rightarrow> fcomplex) \<times> (nat \<Rightarrow> nat \<Rightarrow> nat \<Rightarrow> ieee))" where
  "compute_dielectric_function_fl fl c dyn sys nomega_in omega_grid_in eval_in evec_in dielec_out =
     (let ns = neval dyn in
      case borncharge dyn of
        None \<Rightarrow>
          if 0 < ns then Inl (Undefined ''null borncharge'')
          else Inr (evec_in,
                 fill_dielec_out_fl fl c sys ns nomega_in omega_grid_in eval_in allocate3_fl dielec_out)
      | Some zstar \<Rightarrow>
          let evec1 = normalize_evec_in_fl fl sys ns evec_in;
              zstar_u = fill_zstar_u_fl fl zstar ns evec1 allocate2_fl;
              s_born = fill_s_born_fl fl ns zstar_u allocate3_fl
          in Inr (evec1,
               fill_dielec_out_fl fl c sys ns nomega_in omega_grid_in eval_in s_born dielec_out))"

text \<open>
  One entry of the tensor series that was filled, and the value of the C++ expression
  \<open>dielec[k][i][j] == dielec[k][j][i]\<close> on it.
\<close>

definition dielec_entry_fl ::
  "error + ((nat \<Rightarrow> nat \<Rightarrow> fcomplex) \<times> (nat \<Rightarrow> nat \<Rightarrow> nat \<Rightarrow> ieee)) \<Rightarrow> nat \<Rightarrow> nat \<Rightarrow> nat \<Rightarrow> ieee option" where
  "dielec_entry_fl r k i j = (case r of Inl e \<Rightarrow> None | Inr (ev, d) \<Rightarrow> Some (d k i j))"

definition entries_compare_equal ::
  "error + ((nat \<Rightarrow> nat \<Rightarrow> fcomplex) \<times> (nat \<Rightarrow> nat \<Rightarrow> nat \<Rightarrow> ieee)) \<Rightarrow> nat \<Rightarrow> nat \<Rightarrow> nat \<Rightarrow> bool option" where
  "entries_compare_equal r k i j =
     (case r of Inl e \<Rightarrow> None | Inr (ev, d) \<Rightarrow> Some (cpp_eq (d k i j) (d k j i)))"

section \<open>\<open>Dielec::compute_mode_effective_charge\<close> with rounding\<close>

text \<open>Lines 293-299: the divisor is the square root of the rounded quotient \<open>mass / amu_ry\<close>.\<close>

definition sqrt_mass_amu_fl :: "(real \<Rightarrow> ieee) \<Rightarrow> constants \<Rightarrow> system \<Rightarrow> nat \<Rightarrow> ieee" where
  "sqrt_mass_amu_fl fl c sys j =
     fsqrt fl (fdiv fl (Num (mass sys (map_p2s sys (j div 3) 0))) (Num (amu_ry c)))"

definition normalize_evec_amu_fl ::
  "(real \<Rightarrow> ieee) \<Rightarrow> constants \<Rightarrow> system \<Rightarrow> nat \<Rightarrow> (nat \<Rightarrow> nat \<Rightarrow> fcomplex) \<Rightarrow> nat \<Rightarrow> nat \<Rightarrow> fcomplex" where
  "normalize_evec_amu_fl fl c sys ns evec =
     for_fill 0 ns (\<lambda>i. for_fill 0 ns (\<lambda>j z. cdiv_scalar_fl fl z (sqrt_mass_amu_fl fl c sys j))) evec"

text \<open>Lines 303-314, on a table of doubles.\<close>

definition set_entry_fl :: "ieee list list \<Rightarrow> nat \<Rightarrow> nat \<Rightarrow> ieee \<Rightarrow> ieee list list" where
  "set_entry_fl zm is i v = zm[is := (zm ! is)[i := v]]"

definition table_fits_fl :: "nat \<Rightarrow> ieee list list \<Rightarrow> bool" where
  "table_fits_fl ns zm = (ns \<le> length zm \<and> list_all (\<lambda>row. 3 \<le> length row) (take ns zm))"

definition mode_sums_fl ::
  "(real \<Rightarrow> ieee) \<Rightarrow> (nat \<Rightarrow> nat \<Rightarrow> nat \<Rightarrow> real) \<Rightarrow> nat \<Rightarrow> (nat \<Rightarrow> nat \<Rightarrow> fcomplex) \<Rightarrow> nat \<Rightarrow> nat \<Rightarrow>
   ieee \<times> ieee" where
  "mode_sums_fl fl zstar_atom ns evec is i =
     fold (\<lambda>j (z, normalization_factor).
             (fadd fl z (fmul fl (Num (zstar_atom (j div 3) i (j mod 3))) (freal (evec is j))),
              fadd fl normalization_factor (cnorm_fl fl (evec is j))))
       [0..<ns] (Num 0, Num 0)"

definition fill_zstar_mode_fl ::
  "(real \<Rightarrow> ieee) \<Rightarrow> (nat \<Rightarrow> nat \<Rightarrow> nat \<Rightarrow> real) \<Rightarrow> nat \<Rightarrow> (nat \<Rightarrow> nat \<Rightarrow> fcomplex) \<Rightarrow> bool \<Rightarrow>
   ieee list list \<Rightarrow> ieee list list" where
  "fill_zstar_mode_fl fl zstar_atom ns evec do_normalize zstar_mode =
     fold (\<lambda>i. fold (\<lambda>is zm.
             let (z, normalization_factor) = mode_sums_fl fl zstar_atom ns evec is i
             in set_entry_fl zm is i
                  (if do_normalize then fdiv fl z (fsqrt fl normalization_factor) else z))
           [0..<ns])
       [0..<3] zstar_mode"

text \<open>Lines 252-318.\<close>

definition compute_mode_effective_charge_fl ::
  "(real \<Rightarrow> ieee) \<Rightarrow> constants \<Rightarrow> externals \<Rightarrow> dynamical \<Rightarrow> system \<Rightarrow> ieee list list \<Rightarrow> bool \<Rightarrow>
   error + (dynamical \<times> ieee list list)" where
  "compute_mode_effective_charge_fl fl c ext dyn sys zstar_mode do_normalize =
     (if file_born dyn = []
      then Inl (ExitAll ''Dielec::compute_mode_effective_charge()''
                  ''BORNINFO must be set when DIELEC = 1.'')
      else
        let dyn1 = born_ready ext 0 dyn;
            ns = neval dyn1;
            evec = normalize_evec_amu_fl fl c sys ns
                     (\<lambda>i j. of_complex_fl (mode_evec ext dyn1 sys i j))
        in if \<not> table_fits_fl ns zstar_mode then Inl (Undefined ''zstar_mode index out of range'')
           else case borncharge dyn1 of
             None \<Rightarrow> if 0 < ns then Inl (Undefined ''null borncharge'') else Inr (dyn1, zstar_mode)
           | Some zstar_atom \<Rightarrow>
               Inr (dyn1, fill_zstar_mode_fl fl zstar_atom ns evec do_normalize zstar_mode))"

definition zmode_entry_fl :: "error + (dynamical \<times> ieee list list) \<Rightarrow> nat \<Rightarrow> nat \<Rightarrow> ieee option" where
  "zmode_entry_fl r is i = (case r of Inl e \<Rightarrow> None | Inr (dyn, zm) \<Rightarrow> Some (zm ! is ! i))"

text \<open>
  The eigenvectors after the division of lines 293-299, and the divisor
  \<open>std::sqrt(normalization_factor)\<close> of line 312 for one mode.
\<close>

definition evec_amu_fl ::
  "(real \<Rightarrow> ieee) \<Rightarrow> constants \<Rightarrow> externals \<Rightarrow> dynamical \<Rightarrow> system \<Rightarrow> nat \<Rightarrow> nat \<Rightarrow> fcomplex" where
  "evec_amu_fl fl c ext dyn sys =
     normalize_evec_amu_fl fl c sys (neval (born_ready ext 0 dyn))
       (\<lambda>i j. of_complex_fl (mode_evec ext (born_ready ext 0 dyn) sys i j))"

definition sqrt_norm_fl ::
  "(real \<Rightarrow> ieee) \<Rightarrow> constants \<Rightarrow> externals \<Rightarrow> dynamical \<Rightarrow> system \<Rightarrow> nat \<Rightarrow> ieee" where
  "sqrt_norm_fl fl c ext dyn sys m =
     fsqrt fl (for_sum_fl fl 0 (neval (born_ready ext 0 dyn))
       (\<lambda>j. cnorm_fl fl (evec_amu_fl fl c ext dyn sys m j)))"

section \<open>Calls and the state at an exit\<close>

text \<open>
  To say what a function has done when \<open>exitall\<close> ends the program, a run is the list of
  the calls made to other components and to the allocator, in order, the state that is
  reached, and the error that ended the run, if one did.
\<close>

datatype event =
    Bcast string
  | Allocate string
  | Deallocate string
  | Setup_dielectric nat
  | Eval_k
  | Project_degenerate_eigenvectors
  | Exitall string string

record 's run =
  calls :: "event list"
  state :: 's
  ended :: "error option"

text \<open>
  Lines 252-318 again, with the calls: the check of \<open>file_born\<close> at line 257 comes before
  everything else.
\<close>

definition compute_mode_effective_charge_run ::
  "(real \<Rightarrow> ieee) \<Rightarrow> constants \<Rightarrow> externals \<Rightarrow> dynamical \<Rightarrow> system \<Rightarrow> ieee list list \<Rightarrow> bool \<Rightarrow>
   (dynamical \<times> ieee list list) run" where
  "compute_mode_effective_charge_run fl c ext dyn sys zstar_mode do_normalize =
     (if file_born dyn = []
      then \<lparr>calls = [Exitall ''Dielec::compute_mode_effective_charge()''
                       ''BORNINFO must be set when DIELEC = 1.''],
            state = (dyn, zstar_mode),
            ended = Some (ExitAll ''Dielec::compute_mode_effective_charge()''
                            ''BORNINFO must be set when DIELEC = 1.'')\<rparr>
      else
        let dyn1 = born_ready ext 0 dyn;
            ns = neval dyn1;
            before = (if borncharge dyn = None then [Setup_dielectric 0] else []) @
                     [Allocate ''eval'', Allocate ''evec'',
                      if projection_directions dyn1 \<noteq> [] then Project_degenerate_eigenvectors
                      else Eval_k];
            evec = normalize_evec_amu_fl fl c sys ns
                     (\<lambda>i j. of_complex_fl (mode_evec ext dyn1 sys i j))
        in if \<not> table_fits_fl ns zstar_mode
           then \<lparr>calls = before, state = (dyn1, zstar_mode),
                 ended = Some (Undefined ''zstar_mode index out of range'')\<rparr>
           else case borncharge dyn1 of
             None \<Rightarrow>
               if 0 < ns
               then \<lparr>calls = before, state = (dyn1, zstar_mode),
                     ended = Some (Undefined ''null borncharge'')\<rparr>
               else \<lparr>calls = before @ [Deallocate ''eval'', Deallocate ''evec''],
                     state = (dyn1, zstar_mode), ended = None\<rparr>
           | Some zstar_atom \<Rightarrow>
               \<lparr>calls = before @ [Deallocate ''eval'', Deallocate ''evec''],
                state = (dyn1, fill_zstar_mode_fl fl zstar_atom ns evec do_normalize zstar_mode),
                ended = None\<rparr>)"

section \<open>\<open>Dielec::init\<close>\<close>

text \<open>
  The grid bounds of \<open>Dos\<close>, which are finite doubles, and the member variables of
  \<open>Dielec\<close> with their defaults (lines 41-50).
\<close>

record dos =
  dos_emin :: real
  dos_emax :: real
  dos_delta_e :: real

record dielec_vars =
  calc_dielectric_constant :: int
  dielec :: "(nat \<Rightarrow> nat \<Rightarrow> nat \<Rightarrow> ieee) option"
  omega_grid :: "(nat \<Rightarrow> ieee) option"
  emin :: real
  emax :: real
  delta_e :: real
  nomega :: nat

definition set_default_variables :: dielec_vars where
  "set_default_variables =
     \<lparr>calc_dielectric_constant = 0, dielec = None, omega_grid = None,
      emin = 0, emax = 1, delta_e = 1, nomega = 1\<rparr>"

text \<open>
  \<open>static_cast<int>\<close> of a \<open>double\<close> truncates toward zero; the behaviour is undefined
  when the truncated value is not an \<open>int\<close>, and for an infinity or NaN.
\<close>

fun cast_int :: "ieee \<Rightarrow> error + int" where
  "cast_int (Num x) =
     (let t = (if 0 \<le> x then \<lfloor>x\<rfloor> else \<lceil>x\<rceil>)
      in if - (2 ^ 31) \<le> t \<and> t < 2 ^ 31 then Inr t
         else Inl (Undefined ''double to int conversion out of range''))"
| "cast_int NegZero = Inr 0"
| "cast_int PInf = Inl (Undefined ''double to int conversion out of range'')"
| "cast_int MInf = Inl (Undefined ''double to int conversion out of range'')"
| "cast_int NaN = Inl (Undefined ''double to int conversion out of range'')"

text \<open>
  Lines 66-71, on the process of rank 0: the three bounds are copied, then the quotient is
  computed in double precision from the copies, subtraction first, and truncated;
  \<open>nomega\<close> is an \<open>unsigned int\<close>.
\<close>

definition grid_quotient :: "(real \<Rightarrow> ieee) \<Rightarrow> real \<Rightarrow> real \<Rightarrow> real \<Rightarrow> ieee" where
  "grid_quotient fl e_max e_min de = fdiv fl (fsub fl (Num e_max) (Num e_min)) (Num de)"

definition read_grid :: "(real \<Rightarrow> ieee) \<Rightarrow> dos \<Rightarrow> dielec_vars \<Rightarrow> error + dielec_vars" where
  "read_grid fl d st =
     (let st1 = st\<lparr>emax := dos_emax d, emin := dos_emin d, delta_e := dos_delta_e d\<rparr>
      in case cast_int (grid_quotient fl (emax st1) (emin st1) (delta_e st1)) of
           Inl e \<Rightarrow> Inl e
         | Inr n \<Rightarrow> Inr (st1\<lparr>nomega := nat (n mod 2 ^ 32)\<rparr>))"

text \<open>
  Lines 73-77: the five broadcasts from rank 0. \<open>rank0\<close> holds the variables of the process
  of rank 0 when it reaches them.
\<close>

definition MPI_Bcast :: "dielec_vars \<Rightarrow> dielec_vars \<Rightarrow> dielec_vars" where
  "MPI_Bcast rank0 st =
     st\<lparr>calc_dielectric_constant := calc_dielectric_constant rank0, nomega := nomega rank0,
        emin := emin rank0, emax := emax rank0, delta_e := delta_e rank0\<rparr>"

definition broadcasts :: "event list" where
  "broadcasts = [Bcast ''calc_dielectric_constant'', Bcast ''nomega'', Bcast ''emin'',
                 Bcast ''emax'', Bcast ''delta_e'']"

text \<open>
  Lines 87-91: the grid array as \<open>allocate\<close> hands it out, and the value
  \<open>emin + delta_e * static_cast<double>(i)\<close> that the loop stores in cell \<open>i\<close>.
\<close>

definition allocate1 :: "nat \<Rightarrow> ieee" where
  "allocate1 = (\<lambda>_. Num 0)"

definition grid_point :: "(real \<Rightarrow> ieee) \<Rightarrow> real \<Rightarrow> real \<Rightarrow> nat \<Rightarrow> ieee" where
  "grid_point fl e_min de i = fadd fl (Num e_min) (fmul fl (Num de) (Num (real i)))"

text \<open>
  Lines 62-99, on the process of rank \<open>my_rank\<close>. On the process of rank 0 the broadcasts
  leave its own variables as they are. The loop counter is an \<open>int\<close>, which overflows
  before it reaches a \<open>nomega\<close> of \<open>2 ^ 31\<close> or more.
\<close>

definition init ::
  "(real \<Rightarrow> ieee) \<Rightarrow> nat \<Rightarrow> dos \<Rightarrow> externals \<Rightarrow> dielec_vars \<Rightarrow> dynamical \<Rightarrow> dielec_vars \<Rightarrow>
   (dynamical \<times> dielec_vars) run" where
  "init fl my_rank d ext rank0 dyn st =
     (case (if my_rank = 0 then read_grid fl d st else Inr st) of
        Inl e \<Rightarrow> \<lparr>calls = [], state = (dyn, st), ended = Some e\<rparr>
      | Inr st1 \<Rightarrow>
          let st2 = MPI_Bcast (if my_rank = 0 then st1 else rank0) st1
          in if calc_dielectric_constant st2 = 0
             then \<lparr>calls = broadcasts, state = (dyn, st2), ended = None\<rparr>
             else if my_rank = 0 \<and> file_born dyn = []
             then \<lparr>calls = broadcasts @
                      [Exitall ''Dielec::init()'' ''BORNINFO must be set when DIELEC = 1.''],
                   state = (dyn, st2),
                   ended = Some (ExitAll ''Dielec::init()''
                                   ''BORNINFO must be set when DIELEC = 1.'')\<rparr>
             else if 2 ^ 31 \<le> nomega st2
             then \<lparr>calls = broadcasts @ [Allocate ''omega_grid''],
                   state = (dyn, st2\<lparr>omega_grid := Some allocate1\<rparr>),
                   ended = Some (Undefined ''loop counter overflow'')\<rparr>
             else
               let st3 = st2\<lparr>omega_grid :=
                              Some (for_fill 0 (nomega st2)
                                      (\<lambda>i _. grid_point fl (emin st2) (delta_e st2) i) allocate1)\<rparr>
               in if borncharge dyn = None
                  then \<lparr>calls = broadcasts @ [Allocate ''omega_grid'', Setup_dielectric 1],
                        state = (setup_dielectric ext 1 dyn, st3), ended = None\<rparr>
                  else \<lparr>calls = broadcasts @ [Allocate ''omega_grid''],
                        state = (dyn, st3), ended = None\<rparr>)"




section \<open>A crystal of two atoms\<close>

text \<open>
  Inputs on which the functions are evaluated: two atoms of mass 4, six modes with the
  unit vectors as eigenvectors and the eigenvalues 1 to 6, a grid that starts at 0.
\<close>

definition c0 :: constants where
  "c0 = \<lparr>c_pi = pi, time_ry = 1, Hz_to_kayser = 1, amu_ry = 1 / 4\<rparr>"

definition sys0 :: system where
  "sys0 = \<lparr>mass = (\<lambda>_. 4), map_p2s = (\<lambda>a _. a), volume_p = 2\<rparr>"

definition zstar0 :: "nat \<Rightarrow> nat \<Rightarrow> nat \<Rightarrow> real" where
  "zstar0 a i k = (if a = 0 then 1 else - 1) * (if i = k then 1 else 1 / 2)"

definition dyn0 :: dynamical where
  "dyn0 = \<lparr>neval = 6, borncharge = Some zstar0, file_born = ''born.dat'', projection_directions = []\<rparr>"

definition evec0 :: "nat \<Rightarrow> nat \<Rightarrow> complex" where
  "evec0 is j = (if is = j then 1 else 0)"

definition evec_in0 :: "nat \<Rightarrow> nat \<Rightarrow> dcomplex" where
  "evec_in0 is j = of_complex (evec0 is j)"

definition eval0 :: "nat \<Rightarrow> real" where
  "eval0 is = real is + 1"

definition omega0 :: "nat \<Rightarrow> real" where
  "omega0 k = real k"

definition result0 ::
  "error + ((nat \<Rightarrow> nat \<Rightarrow> dcomplex) \<times> (nat \<Rightarrow> nat \<Rightarrow> nat \<Rightarrow> dbl))" where
  "result0 = compute_dielectric_function c0 dyn0 sys0 2 omega0 eval0 evec_in0 allocate3"

definition ext0 :: externals where
  "ext0 = \<lparr>eval_k = (\<lambda>dyn sys xk. (eval0, evec0)),
           project_degenerate_eigenvectors = (\<lambda>dyn sys xk dirs. evec0),
           setup_dielectric = (\<lambda>verbosity_level dyn. dyn\<lparr>borncharge := Some zstar0\<rparr>)\<rparr>"

definition zstar_mode0 :: "dbl list list" where
  "zstar_mode0 = replicate 6 (replicate 3 0)"

text \<open>The same crystal with no Born charge file, and with Born charges that are all zero.\<close>

definition dyn_no_born :: dynamical where
  "dyn_no_born = dyn0\<lparr>borncharge := None, file_born := []\<rparr>"

definition dyn_zero :: dynamical where
  "dyn_zero = dyn0\<lparr>borncharge := Some (\<lambda>a i k. 0)\<rparr>"

text \<open>A grid provider: the grid from 0 to 10.5 in steps of 0.5.\<close>

definition dos0 :: dos where
  "dos0 = \<lparr>dos_emin = 0, dos_emax = 21 / 2, dos_delta_e = 1 / 2\<rparr>"

text \<open>A second set of inputs, which differs from the first only where no loop looks.\<close>

definition sys1 :: system where
  "sys1 = \<lparr>mass = (\<lambda>a. if a < 2 then 4 else 9), map_p2s = (\<lambda>a t. if t = 0 then a else 7),
           volume_p = 2\<rparr>"

definition zstar1 :: "nat \<Rightarrow> nat \<Rightarrow> nat \<Rightarrow> real" where
  "zstar1 a i k = (if a < 2 \<and> i < 3 then zstar0 a i k else 5)"

definition dyn1 :: dynamical where
  "dyn1 = \<lparr>neval = 6, borncharge = Some zstar1, file_born = ''BORNINFO'',
           projection_directions = []\<rparr>"

definition eval1 :: "nat \<Rightarrow> real" where
  "eval1 is = (if 3 \<le> is \<and> is < 6 then real is + 1 else - 1)"

definition evec_in1 :: "nat \<Rightarrow> nat \<Rightarrow> dcomplex" where
  "evec_in1 is j = (if is < 6 \<and> j < 6 then evec_in0 is j else \<lparr>creal = NonFin, cimag = NonFin\<rparr>)"

definition omega1 :: "nat \<Rightarrow> real" where
  "omega1 k = (if k < 2 then real k else 0)"

definition ext1 :: externals where
  "ext1 = \<lparr>eval_k = (\<lambda>dyn sys xk. (eval1, evec0)),
           project_degenerate_eigenvectors = (\<lambda>dyn sys xk dirs i j. 0),
           setup_dielectric = (\<lambda>verbosity_level dyn. dyn)\<rparr>"

text \<open>
  The same crystal in the embedding with rounding. With the rounding \<open>fl_exact\<close> no result
  is changed: it is the rounding of the hardware wherever every result is a double, as
  at the grid point 2 below, where the square of the grid value is the eigenvalue 4 of
  mode 3. The constant \<open>c_pi\<close> of \<open>c2\<close> is the double nearest to \<open>\<pi>\<close>.
\<close>

definition fl_exact :: "real \<Rightarrow> ieee" where
  "fl_exact r = Num r"

definition c2 :: constants where
  "c2 = \<lparr>c_pi = 884279719003555 / 2 ^ 48, time_ry = 1, Hz_to_kayser = 1, amu_ry = 1 / 4\<rparr>"

definition evec_fl0 :: "nat \<Rightarrow> nat \<Rightarrow> fcomplex" where
  "evec_fl0 is j = of_complex_fl (evec0 is j)"

definition pole_result ::
  "error + ((nat \<Rightarrow> nat \<Rightarrow> fcomplex) \<times> (nat \<Rightarrow> nat \<Rightarrow> nat \<Rightarrow> ieee))" where
  "pole_result =
     compute_dielectric_function_fl fl_exact c2 dyn_zero sys0 3 omega0 eval0 evec_fl0 allocate3_fl"

definition result_fl0 ::
  "error + ((nat \<Rightarrow> nat \<Rightarrow> fcomplex) \<times> (nat \<Rightarrow> nat \<Rightarrow> nat \<Rightarrow> ieee))" where
  "result_fl0 =
     compute_dielectric_function_fl fl_exact c2 dyn0 sys0 3 omega0 eval0 evec_fl0 allocate3_fl"

definition zstar_mode_fl0 :: "ieee list list" where
  "zstar_mode_fl0 = replicate 6 (replicate 3 (Num 1))"

text \<open>
  The variables of \<open>Dielec\<close> with the calculation switched on, and what the process of
  rank 0 holds after it has read the grid of \<open>dos0\<close>.
\<close>

definition enabled0 :: dielec_vars where
  "enabled0 = set_default_variables\<lparr>calc_dielectric_constant := 1\<rparr>"

definition root0 :: dielec_vars where
  "root0 = enabled0\<lparr>emax := 21 / 2, emin := 0, delta_e := 1 / 2, nomega := 21\<rparr>"




section \<open>Loop lemmas\<close>

lemma for_fill_upto:
  "for_fill 0 n g a = (\<lambda>k. if k < n then g k (a k) else a k)"
proof (induction n)
  case 0
  show ?case by (simp add: for_fill_def)
next
  case (Suc n)
  have "for_fill 0 (Suc n) g a = (for_fill 0 n g a)(n := g n (for_fill 0 n g a n))"
    by (simp add: for_fill_def)
  also have "\<dots> = (\<lambda>k. if k < Suc n then g k (a k) else a k)"
    unfolding Suc.IH by (rule ext) (simp add: less_Suc_eq)
  finally show ?case .
qed

lemma fold_plus_acc:
  fixes f :: "nat \<Rightarrow> dbl"
  shows "fold (\<lambda>k acc. acc + f k) xs a = a + sum_list (map f xs)"
  by (induction xs arbitrary: a) (simp_all add: add.assoc)

lemma for_sum_eq: "for_sum lo hi f = (\<Sum>k = lo..<hi. f k)"
  by (simp add: for_sum_def fold_plus_acc interv_sum_list_conv_sum_set_nat)

lemma normalize_evec_in_eq:
  "normalize_evec_in sys ns evec_in =
     (\<lambda>i j. if i < ns \<and> j < ns then cdiv_scalar (evec_in i j) (sqrt_mass sys j) else evec_in i j)"
  by (intro ext) (simp add: normalize_evec_in_def for_fill_upto)

lemma fill_zstar_u_eq:
  "fill_zstar_u zstar ns evec zu =
     (\<lambda>i is. if i < 3 \<and> is < ns
        then (\<Sum>j<ns. Fin (zstar (j div 3) i (j mod 3)) * creal (evec is j)) else zu i is)"
  by (intro ext) (simp add: fill_zstar_u_def for_fill_upto for_sum_eq atLeast0LessThan)

lemma fill_s_born_eq:
  "fill_s_born ns zu sb =
     (\<lambda>i j is. if i < 3 \<and> j < 3 \<and> is < ns then zu i is * zu j is else sb i j is)"
  by (intro ext) (simp add: fill_s_born_def for_fill_upto)

lemma fill_dielec_out_eq:
  "fill_dielec_out c sys ns nomega_in omega eval sb d =
     (\<lambda>iomega i j. if iomega < nomega_in \<and> i < 3 \<and> j < 3
        then (\<Sum>is = 3..<ns. sb i j is / (Fin (eval is) - omega_conv2 c (omega iomega))) * factor c sys
        else d iomega i j)"
  by (intro ext) (simp add: fill_dielec_out_def for_fill_upto for_sum_eq omega_conv2_def Let_def)

lemma sum_lessThan_6: "(\<Sum>j<6. f j) = f 0 + f 1 + f 2 + f 3 + f 4 + f (5::nat)" for f :: "nat \<Rightarrow> dbl"
  by (simp add: lessThan_nat_numeral lessThan_Suc add.commute add.left_commute)

lemma sum_3_6: "(\<Sum>j = 3..<6. f j) = f 3 + f 4 + f (5::nat)" for f :: "nat \<Rightarrow> dbl"
  by (simp add: atLeastLessThan_nat_numeral atLeastLessThanSuc add.commute add.left_commute)

lemma mode_sums_eq:
  "mode_sums z ns evec is i =
     ((\<Sum>j<ns. Fin (z (j div 3) i (j mod 3)) * creal (evec is j)), (\<Sum>j<ns. cnorm (evec is j)))"
proof -
  have "fold (\<lambda>j (a, b). (a + f j, b + g j)) xs (a0, b0) =
        (a0 + sum_list (map f xs), b0 + sum_list (map g xs))"
    for f g :: "nat \<Rightarrow> dbl" and xs a0 b0
    by (induction xs arbitrary: a0 b0) (simp_all add: add.assoc)
  then show ?thesis
    by (simp add: mode_sums_def interv_sum_list_conv_sum_set_nat atLeast0LessThan)
qed

lemma set_entry_length [simp]: "length (set_entry zm is i v) = length zm"
  by (simp add: set_entry_def)

lemma set_entry_row_length [simp]: "length (set_entry zm is i v ! a) = length (zm ! a)"
  by (cases "is < length zm") (simp_all add: set_entry_def nth_list_update list_update_beyond)

lemma set_entry_nth:
  "a < length zm \<Longrightarrow> b < length (zm ! a) \<Longrightarrow>
   set_entry zm is i v ! a ! b = (if a = is \<and> b = i then v else zm ! a ! b)"
  by (cases "a = is") (simp_all add: set_entry_def nth_list_update)

lemma fold_set_entry_inner:
  "length (fold (\<lambda>is zm. set_entry zm is i (h is)) xs zm) = length zm \<and>
   (\<forall>a. length (fold (\<lambda>is zm. set_entry zm is i (h is)) xs zm ! a) = length (zm ! a)) \<and>
   (\<forall>a b. a < length zm \<longrightarrow> b < length (zm ! a) \<longrightarrow>
      fold (\<lambda>is zm. set_entry zm is i (h is)) xs zm ! a ! b =
        (if a \<in> set xs \<and> b = i then h a else zm ! a ! b))"
proof (induction xs rule: rev_induct)
  case Nil
  show ?case by simp
next
  case (snoc x xs)
  then show ?case by (auto simp: set_entry_nth)
qed

lemma fold_set_entry_outer:
  "length (fold (\<lambda>i. fold (\<lambda>is zm. set_entry zm is i (h is i)) xs) ys zm) = length zm \<and>
   (\<forall>a. length (fold (\<lambda>i. fold (\<lambda>is zm. set_entry zm is i (h is i)) xs) ys zm ! a) = length (zm ! a)) \<and>
   (\<forall>a b. a < length zm \<longrightarrow> b < length (zm ! a) \<longrightarrow>
      fold (\<lambda>i. fold (\<lambda>is zm. set_entry zm is i (h is i)) xs) ys zm ! a ! b =
        (if a \<in> set xs \<and> b \<in> set ys then h a b else zm ! a ! b))"
proof (induction ys rule: rev_induct)
  case Nil
  show ?case by simp
next
  case (snoc y ys)
  let ?zm = "fold (\<lambda>i. fold (\<lambda>is zm. set_entry zm is i (h is i)) xs) ys zm"
  note inner = fold_set_entry_inner[of y "\<lambda>is. h is y" xs ?zm]
  show ?case using snoc inner by auto
qed

lemma normalize_evec_amu_eq:
  "normalize_evec_amu c sys ns evec =
     (\<lambda>i j. if i < ns \<and> j < ns then cdiv_scalar (evec i j) (sqrt_mass_amu c sys j) else evec i j)"
  by (intro ext) (simp add: normalize_evec_amu_def for_fill_upto)

lemma fill_zstar_mode_nth:
  assumes "table_fits ns zm" "is < ns" "i < 3"
  shows "fill_zstar_mode z ns (normalize_evec_amu c sys ns (\<lambda>i j. of_complex (evec i j))) b zm ! is ! i =
     (if b then zmode_sum c z sys ns evec is i / dsqrt (evec_norm c sys ns evec is)
      else zmode_sum c z sys ns evec is i)"
proof -
  let ?e = "normalize_evec_amu c sys ns (\<lambda>i j. of_complex (evec i j))"
  let ?h = "\<lambda>is i. let (z, normalization_factor) = mode_sums z ns ?e is i
             in (if b then z / dsqrt normalization_factor else z)"
  have eq: "fill_zstar_mode z ns ?e b zm =
      fold (\<lambda>i. fold (\<lambda>is zm. set_entry zm is i (?h is i)) [0..<ns]) [0..<3] zm"
    by (simp add: fill_zstar_mode_def Let_def case_prod_beta)
  have fits: "ns \<le> length zm" "\<forall>n<ns. 3 \<le> length (zm ! n)"
    using assms(1) by (simp_all add: table_fits_def list_all_length)
  have len: "is < length zm" "i < length (zm ! is)"
    using fits assms(2,3) by force+
  have "fill_zstar_mode z ns ?e b zm ! is ! i = ?h is i"
    unfolding eq using fold_set_entry_outer[of ?h "[0..<ns]" "[0..<3]" zm] len assms by simp
  also have "\<dots> = (if b then zmode_sum c z sys ns evec is i / dsqrt (evec_norm c sys ns evec is)
      else zmode_sum c z sys ns evec is i)"
    using assms by (simp add: mode_sums_eq zmode_sum_def evec_norm_def normalize_evec_amu_eq)
  finally show ?thesis .
qed

section \<open>The dielectric tensor\<close>

lemma compute_dielectric_function_Inr:
  assumes "borncharge dyn = Some zstar"
  shows "compute_dielectric_function c dyn sys nomega_in omega eval evec d0 =
    Inr (\<lambda>i j. if i < neval dyn \<and> j < neval dyn
                then cdiv_scalar (evec i j) (sqrt_mass sys j) else evec i j,
         \<lambda>iomega i j. if iomega < nomega_in \<and> i < 3 \<and> j < 3
                then (\<Sum>is = 3..<neval dyn.
                        zstar_u_spec zstar sys (neval dyn) evec i is *
                        zstar_u_spec zstar sys (neval dyn) evec j is
                          / (Fin (eval is) - omega_conv2 c (omega iomega))) * factor c sys
                else d0 iomega i j)"
proof -
  let ?ns = "neval dyn"
  let ?e1 = "\<lambda>i j. if i < ?ns \<and> j < ?ns
                then cdiv_scalar (evec i j) (sqrt_mass sys j) else evec i j"
  have zu: "fill_zstar_u zstar ?ns ?e1 allocate2 i is = zstar_u_spec zstar sys ?ns evec i is"
    if "i < 3" "is < ?ns" for i "is"
    using that by (simp add: fill_zstar_u_eq zstar_u_spec_def)
  have sb: "fill_s_born ?ns (fill_zstar_u zstar ?ns ?e1 allocate2) allocate3 i j is =
      zstar_u_spec zstar sys ?ns evec i is * zstar_u_spec zstar sys ?ns evec j is"
    if "i < 3" "j < 3" "is < ?ns" for i j "is"
    using that by (simp add: fill_s_born_eq zu)
  have d: "fill_dielec_out c sys ?ns nomega_in omega eval
       (fill_s_born ?ns (fill_zstar_u zstar ?ns ?e1 allocate2) allocate3) d0 =
     (\<lambda>iomega i j. if iomega < nomega_in \<and> i < 3 \<and> j < 3
                then (\<Sum>is = 3..<?ns.
                        zstar_u_spec zstar sys ?ns evec i is * zstar_u_spec zstar sys ?ns evec j is
                          / (Fin (eval is) - omega_conv2 c (omega iomega))) * factor c sys
                else d0 iomega i j)"
    by (intro ext) (simp add: fill_dielec_out_eq sb)
  show ?thesis
    using assms by (simp add: compute_dielectric_function_def Let_def d normalize_evec_in_eq)
qed


lemma zstar_u_spec0:
  "i < 3 \<Longrightarrow> is < 6 \<Longrightarrow>
   zstar_u_spec zstar0 sys0 6 evec_in0 i is = Fin (zstar0 (is div 3) i (is mod 3) / 2)"
proof -
  assume "i < 3" "is < 6"
  then have "is = 0 \<or> is = 1 \<or> is = 2 \<or> is = 3 \<or> is = 4 \<or> is = 5" by arith
  then show ?thesis
    by (elim disjE) (simp_all add: zstar_u_spec_def sum_lessThan_6 sys0_def evec_in0_def evec0_def
      of_complex_def cdiv_scalar_def sqrt_mass_def zero_dbl_def)
qed

lemma factor0: "factor c0 sys0 = Fin (4 * pi)"
  by (simp add: factor_def c0_def sys0_def)

lemma omega_conv2_c0: "omega_conv2 c0 w = Fin (w * w)"
  by (simp add: omega_conv2_def freq_conv_factor_def c0_def)

lemma result0_entries:
  "dielec_entry result0 0 0 0 = Some (Fin (41 * pi / 120))"
  "dielec_entry result0 0 0 1 = Some (Fin (4 * pi / 15))"
  "dielec_entry result0 0 1 0 = Some (Fin (4 * pi / 15))"
  using compute_dielectric_function_Inr [of dyn0 zstar0 c0 sys0 2 omega0 eval0 evec_in0 allocate3]
  by (simp_all add: result0_def dielec_entry_def dyn0_def sum_3_6 zstar_u_spec0 zstar0_def
      factor0 omega_conv2_c0 omega0_def eval0_def)





lemma compute_mode_effective_charge_Inr:
  assumes "file_born dyn \<noteq> []"
    and "borncharge (born_ready ext 0 dyn) = Some zstar_atom"
    and "table_fits (neval (born_ready ext 0 dyn)) zm"
  shows "compute_mode_effective_charge c ext dyn sys zm b =
     Inr (born_ready ext 0 dyn,
          fill_zstar_mode zstar_atom (neval (born_ready ext 0 dyn))
            (normalize_evec_amu c sys (neval (born_ready ext 0 dyn))
               (\<lambda>i j. of_complex (mode_evec ext (born_ready ext 0 dyn) sys i j))) b zm)"
  using assms by (simp add: compute_mode_effective_charge_def Let_def)

section \<open>The mode effective charges\<close>

text \<open>
  C2. For every mode \<open>is\<close>, the three acoustic modes included, and every Cartesian
  direction \<open>i\<close>, \<open>compute_mode_effective_charge\<close> divides each eigenvector component by
  \<open>sqrt (mass / amu_ry)\<close>, which is not the divisor \<open>sqrt mass\<close> of the dielectric
  computation, computes \<open>zmode[is][i]\<close> as the sum over \<open>j\<close> of
  \<open>BornCharge[j / 3][i][j mod 3]\<close> times the real part of \<open>evec[is][j]\<close>, accumulates the
  norm as the sum over \<open>j\<close> of \<open>|evec[is][j]|\<^sup>2\<close>, by whose square root the entry is
  divided on request, and returns the whole table of \<open>ns\<close> rows and three columns.
\<close>

theorem compute_mode_effective_charge_formula:
  assumes "file_born dyn \<noteq> []"
    and "borncharge (born_ready ext 0 dyn) = Some zstar_atom"
    and "table_fits (neval (born_ready ext 0 dyn)) zm"
    and "is < neval (born_ready ext 0 dyn)" and "i < 3"
  shows "zmode_entry (compute_mode_effective_charge c ext dyn sys zm do_normalize) is i =
     Some (let z = zmode_sum c zstar_atom sys (neval (born_ready ext 0 dyn))
                     (mode_evec ext (born_ready ext 0 dyn) sys) is i;
               normalization_factor = evec_norm c sys (neval (born_ready ext 0 dyn))
                     (mode_evec ext (born_ready ext 0 dyn) sys) is
           in if do_normalize then z / dsqrt normalization_factor else z)"
  unfolding compute_mode_effective_charge_Inr [OF assms(1-3)]
  using fill_zstar_mode_nth [OF assms(3-5)]
  by (simp add: zmode_entry_def Let_def)

lemma dyn0_ready: "born_ready ext0 v dyn0 = dyn0"
  by (simp add: born_ready_def dyn0_def)

lemma mode_evec0: "mode_evec ext0 dyn0 sys0 = evec0"
  by (simp add: mode_evec_def ext0_def dyn0_def)

lemma sqrt_mass_amu0: "sqrt_mass_amu c0 sys0 j = Fin 4"
proof -
  have "sqrt 16 = (4::real)" using real_sqrt_abs [of 4] by simp
  then show ?thesis by (simp add: sqrt_mass_amu_def c0_def sys0_def)
qed

lemma zmode_sum0:
  "i < 3 \<Longrightarrow> is < 6 \<Longrightarrow>
   zmode_sum c0 zstar0 sys0 6 evec0 is i = Fin (zstar0 (is div 3) i (is mod 3) / 4)"
proof -
  assume "i < 3" "is < 6"
  then have "is = 0 \<or> is = 1 \<or> is = 2 \<or> is = 3 \<or> is = 4 \<or> is = 5" by arith
  then show ?thesis
    by (elim disjE) (simp_all add: zmode_sum_def sum_lessThan_6 sqrt_mass_amu0 evec0_def
      of_complex_def cdiv_scalar_def zero_dbl_def)
qed

lemma evec_norm0: "is < 6 \<Longrightarrow> evec_norm c0 sys0 6 evec0 is = Fin (1 / 16)"
proof -
  assume "is < 6"
  then have "is = 0 \<or> is = 1 \<or> is = 2 \<or> is = 3 \<or> is = 4 \<or> is = 5" by arith
  then show ?thesis
    by (elim disjE) (simp_all add: evec_norm_def sum_lessThan_6 sqrt_mass_amu0 evec0_def
      of_complex_def cdiv_scalar_def cnorm_def zero_dbl_def)
qed

lemma table_fits0: "table_fits 6 zstar_mode0"
  by (simp add: table_fits_def zstar_mode0_def list_all_length)

theorem compute_mode_effective_charge_formula_witness:
  "file_born dyn0 \<noteq> [] \<and> borncharge (born_ready ext0 0 dyn0) = Some zstar0 \<and>
   table_fits (neval (born_ready ext0 0 dyn0)) zstar_mode0 \<and>
   5 < neval (born_ready ext0 0 dyn0) \<and> (1::nat) < 3 \<and>
   zmode_entry (compute_mode_effective_charge c0 ext0 dyn0 sys0 zstar_mode0 False) 5 1 = Some (Fin (- 1 / 8)) \<and>
   zmode_entry (compute_mode_effective_charge c0 ext0 dyn0 sys0 zstar_mode0 True) 5 1 = Some (Fin (- 1 / 2)) \<and>
   sqrt_mass_amu c0 sys0 5 = Fin 4 \<and> sqrt_mass sys0 5 = Fin 2"
proof -
  have a: "file_born dyn0 \<noteq> []" by (simp add: dyn0_def)
  have b: "borncharge (born_ready ext0 0 dyn0) = Some zstar0" by (simp add: dyn0_ready) (simp add: dyn0_def)
  have n: "neval (born_ready ext0 0 dyn0) = 6" by (simp add: dyn0_ready) (simp add: dyn0_def)
  have t: "table_fits (neval (born_ready ext0 0 dyn0)) zstar_mode0" by (simp add: n table_fits0)
  have k: "5 < neval (born_ready ext0 0 dyn0)" by (simp add: n)
  have i: "(1::nat) < 3" by simp
  have n0: "neval dyn0 = 6" by (simp add: dyn0_def)
  have q: "sqrt (1 / 16) = (1 / 4 :: real)"
    using real_sqrt_abs [of "1 / 4"] by (simp add: power2_eq_square)
  have s: "sqrt_mass sys0 5 = Fin 2" by (simp add: sqrt_mass_def sys0_def)
  show ?thesis
    using a b t k i s
      compute_mode_effective_charge_formula [OF a b t k i, of c0 sys0 False]
      compute_mode_effective_charge_formula [OF a b t k i, of c0 sys0 True]
    by (simp add: n0 dyn0_ready mode_evec0 zmode_sum0 evec_norm0 sqrt_mass_amu0 zstar0_def q)
qed

lemma sum_Fin: "(\<Sum>j<n. Fin (f j)) = Fin (\<Sum>j<n. f j)" for n :: nat
  by (induction n) (simp_all add: zero_dbl_def)

lemma sqrt_mass_amu_pos:
  assumes "0 < mass_amu c sys j"
  shows "sqrt_mass_amu c sys j = Fin (sqrt (mass_amu c sys j))"
proof -
  from assms have "amu_ry c \<noteq> 0" by (auto simp: mass_amu_def)
  with assms show ?thesis by (simp add: sqrt_mass_amu_def mass_amu_def)
qed

lemma cdiv_scalar_real:
  assumes "0 < mass_amu c sys j"
  shows "cdiv_scalar (of_complex z) (sqrt_mass_amu c sys j) =
     \<lparr>creal = Fin (Re z / sqrt (mass_amu c sys j)), cimag = Fin (Im z / sqrt (mass_amu c sys j))\<rparr>"
  using assms by (simp add: sqrt_mass_amu_pos cdiv_scalar_def of_complex_def)

lemma zmode_sum_real:
  assumes "\<forall>j<ns. 0 < mass_amu c sys j"
  shows "zmode_sum c z sys ns evec is i = Fin (zmode_real c z sys ns evec is i)"
proof -
  have "zmode_sum c z sys ns evec is i =
      (\<Sum>j<ns. Fin (z (j div 3) i (j mod 3) * (Re (evec is j) / sqrt (mass_amu c sys j))))"
    unfolding zmode_sum_def
    by (rule sum.cong) (use assms in \<open>simp_all add: cdiv_scalar_real\<close>)
  then show ?thesis by (simp add: sum_Fin zmode_real_def)
qed

lemma evec_norm_real:
  assumes "\<forall>j<ns. 0 < mass_amu c sys j"
  shows "evec_norm c sys ns evec is = Fin (norm_real c sys ns evec is)"
proof -
  have "evec_norm c sys ns evec is =
      (\<Sum>j<ns. Fin ((Re (evec is j) / sqrt (mass_amu c sys j)) * (Re (evec is j) / sqrt (mass_amu c sys j)) +
              (Im (evec is j) / sqrt (mass_amu c sys j)) * (Im (evec is j) / sqrt (mass_amu c sys j))))"
    unfolding evec_norm_def
    by (rule sum.cong)
      (use assms in \<open>simp_all add: cdiv_scalar_real cnorm_def\<close>)
  then show ?thesis by (simp add: sum_Fin norm_real_def)
qed

lemma norm_real_nonneg: "0 \<le> norm_real c sys ns evec is"
  unfolding norm_real_def by (intro sum_nonneg add_nonneg_nonneg) simp_all

lemma fill_zstar_mode_shape:
  "length (fill_zstar_mode z ns e b zm) = length zm \<and>
   (\<forall>a. length (fill_zstar_mode z ns e b zm ! a) = length (zm ! a))"
proof -
  let ?h = "\<lambda>is i. let (z, normalization_factor) = mode_sums z ns e is i
             in (if b then z / dsqrt normalization_factor else z)"
  have eq: "fill_zstar_mode z ns e b zm =
      fold (\<lambda>i. fold (\<lambda>is zm. set_entry zm is i (?h is i)) [0..<ns]) [0..<3] zm"
    by (simp add: fill_zstar_mode_def Let_def case_prod_beta)
  show ?thesis
    unfolding eq using fold_set_entry_outer [of ?h "[0..<ns]" "[0..<3]" zm] by blast
qed

text \<open>
  C10. \<open>get_zstar_mode\<close> always calls \<open>compute_mode_effective_charge\<close> with
  \<open>do_normalize = false\<close>: the table of \<open>ns\<close> rows and three columns that it returns holds
  the unnormalized mode effective charges, never the normalized ones.
\<close>

theorem get_zstar_mode_unnormalized:
  assumes "file_born dyn \<noteq> []"
    and "borncharge (born_ready ext 0 dyn) = Some zstar_atom"
    and "neval (born_ready ext 0 dyn) = neval dyn"
  shows "get_zstar_mode c ext dyn sys =
           compute_mode_effective_charge c ext dyn sys (replicate (neval dyn) (replicate 3 0)) False \<and>
         get_zstar_mode c ext dyn sys =
           Inr (born_ready ext 0 dyn,
                map (\<lambda>is. map (\<lambda>i. zmode_sum c zstar_atom sys (neval dyn)
                                    (mode_evec ext (born_ready ext 0 dyn) sys) is i) [0..<3])
                  [0..<neval dyn])"
proof -
  let ?ns = "neval dyn"
  let ?zm = "replicate ?ns (replicate 3 (0::dbl))"
  let ?e = "normalize_evec_amu c sys ?ns (\<lambda>i j. of_complex (mode_evec ext (born_ready ext 0 dyn) sys i j))"
  let ?t = "fill_zstar_mode zstar_atom ?ns ?e False ?zm"
  have fits: "table_fits ?ns ?zm"
    by (simp add: table_fits_def list_all_length)
  have fits': "table_fits (neval (born_ready ext 0 dyn)) ?zm"
    using fits assms(3) by simp
  have r: "compute_mode_effective_charge c ext dyn sys ?zm False = Inr (born_ready ext 0 dyn, ?t)"
    using compute_mode_effective_charge_Inr [OF assms(1,2) fits'] assms(3) by simp
  have len: "length ?t = ?ns" and rows: "\<And>a. a < ?ns \<Longrightarrow> length (?t ! a) = 3"
    using fill_zstar_mode_shape [of zstar_atom ?ns ?e False ?zm] by simp_all
  have "?t = map (\<lambda>is. map (\<lambda>i. zmode_sum c zstar_atom sys ?ns
                (mode_evec ext (born_ready ext 0 dyn) sys) is i) [0..<3]) [0..<?ns]"
  proof (rule nth_equalityI)
    show "length ?t = length (map (\<lambda>is. map (\<lambda>i. zmode_sum c zstar_atom sys ?ns
                (mode_evec ext (born_ready ext 0 dyn) sys) is i) [0..<3]) [0..<?ns])"
      by (simp add: len)
  next
    fix a assume "a < length ?t"
    then have a: "a < ?ns" by (simp add: len)
    show "?t ! a = map (\<lambda>is. map (\<lambda>i. zmode_sum c zstar_atom sys ?ns
                (mode_evec ext (born_ready ext 0 dyn) sys) is i) [0..<3]) [0..<?ns] ! a"
    proof (rule nth_equalityI)
      show "length (?t ! a) = length (map (\<lambda>is. map (\<lambda>i. zmode_sum c zstar_atom sys ?ns
                (mode_evec ext (born_ready ext 0 dyn) sys) is i) [0..<3]) [0..<?ns] ! a)"
        using a by (simp add: rows)
    next
      fix b assume "b < length (?t ! a)"
      then have b: "b < 3" using a by (simp add: rows)
      show "?t ! a ! b = map (\<lambda>is. map (\<lambda>i. zmode_sum c zstar_atom sys ?ns
                (mode_evec ext (born_ready ext 0 dyn) sys) is i) [0..<3]) [0..<?ns] ! a ! b"
        using fill_zstar_mode_nth [OF fits a b, of zstar_atom c sys _ False] a b by simp
    qed
  qed
  with r show ?thesis by (simp add: get_zstar_mode_def Let_def)
qed

theorem get_zstar_mode_unnormalized_witness:
  "file_born dyn0 \<noteq> [] \<and> borncharge (born_ready ext0 0 dyn0) = Some zstar0 \<and>
   neval (born_ready ext0 0 dyn0) = neval dyn0 \<and>
   get_zstar_mode c0 ext0 dyn0 sys0 =
     compute_mode_effective_charge c0 ext0 dyn0 sys0 (replicate 6 (replicate 3 0)) False \<and>
   zmode_entry (get_zstar_mode c0 ext0 dyn0 sys0) 5 1 = Some (Fin (- 1 / 8)) \<and>
   zmode_entry (compute_mode_effective_charge c0 ext0 dyn0 sys0 (replicate 6 (replicate 3 0)) True) 5 1
     = Some (Fin (- 1 / 2))"
proof -
  have a: "file_born dyn0 \<noteq> []" by (simp add: dyn0_def)
  have b: "borncharge (born_ready ext0 0 dyn0) = Some zstar0" by (simp add: dyn0_ready) (simp add: dyn0_def)
  have n: "neval (born_ready ext0 0 dyn0) = neval dyn0" by (simp add: dyn0_ready)
  have n0: "neval dyn0 = 6" by (simp add: dyn0_def)
  have q: "sqrt (1 / 16) = (1 / 4 :: real)"
    using real_sqrt_abs [of "1 / 4"] by (simp add: power2_eq_square)
  have t: "table_fits (neval (born_ready ext0 0 dyn0)) zstar_mode0" by (simp add: n n0 table_fits0)
  have k: "5 < neval (born_ready ext0 0 dyn0)" by (simp add: n n0)
  have "zmode_entry (compute_mode_effective_charge c0 ext0 dyn0 sys0 zstar_mode0 True) 5 1 = Some (Fin (- 1 / 2))"
    unfolding compute_mode_effective_charge_Inr [OF a b t]
    using fill_zstar_mode_nth [OF t k, of 1 zstar0 c0 sys0 "mode_evec ext0 dyn0 sys0" True]
    by (simp add: zmode_entry_def n0 dyn0_ready mode_evec0 zmode_sum0 evec_norm0 zstar0_def q)
  moreover
  note g = get_zstar_mode_unnormalized [OF a b n, of c0 sys0]
  have "zmode_entry (get_zstar_mode c0 ext0 dyn0 sys0) 5 1 = Some (Fin (- 1 / 8))"
    unfolding conjunct2 [OF g]
    by (simp add: n0 zmode_entry_def dyn0_ready mode_evec0 zmode_sum0 zstar0_def)
  ultimately show ?thesis
    using a b n conjunct1 [OF g] by (simp add: n0 zstar_mode0_def)
qed

text \<open>
  C4. When normalization is requested, \<open>zmode[is][i]\<close> is the unnormalized sum divided
  by the square root of the eigenvector norm. For every mode \<open>is\<close> with a nonzero
  eigenvector norm, and positive masses, the sum over \<open>i\<close> of \<open>zmode[is][i]\<^sup>2\<close> is
  therefore the squared length of the unnormalized charge vector divided by the
  eigenvector norm. It is 1 only where the two lengths agree.
\<close>

theorem normalized_mode_charge_sumsq:
  assumes "file_born dyn \<noteq> []"
    and "borncharge (born_ready ext 0 dyn) = Some zstar_atom"
    and "table_fits (neval (born_ready ext 0 dyn)) zm"
    and "is < neval (born_ready ext 0 dyn)"
    and "\<forall>j<neval (born_ready ext 0 dyn). 0 < mass_amu c sys j"
    and "norm_real c sys (neval (born_ready ext 0 dyn)) (mode_evec ext (born_ready ext 0 dyn) sys) is \<noteq> 0"
  shows "zmode_sumsq (compute_mode_effective_charge c ext dyn sys zm True) is =
     Some (Fin (((zmode_real c zstar_atom sys (neval (born_ready ext 0 dyn))
                    (mode_evec ext (born_ready ext 0 dyn) sys) is 0)\<^sup>2 +
                 (zmode_real c zstar_atom sys (neval (born_ready ext 0 dyn))
                    (mode_evec ext (born_ready ext 0 dyn) sys) is 1)\<^sup>2 +
                 (zmode_real c zstar_atom sys (neval (born_ready ext 0 dyn))
                    (mode_evec ext (born_ready ext 0 dyn) sys) is 2)\<^sup>2)
                / norm_real c sys (neval (born_ready ext 0 dyn))
                    (mode_evec ext (born_ready ext 0 dyn) sys) is))"
proof -
  let ?ns = "neval (born_ready ext 0 dyn)"
  let ?ev = "mode_evec ext (born_ready ext 0 dyn) sys"
  let ?n = "norm_real c sys ?ns ?ev is"
  let ?u = "zmode_real c zstar_atom sys ?ns ?ev is"
  let ?t = "fill_zstar_mode zstar_atom ?ns
              (normalize_evec_amu c sys ?ns (\<lambda>i j. of_complex (?ev i j))) True zm"
  have npos: "0 < ?n" using assms(6) norm_real_nonneg [of c sys ?ns ?ev "is"] by simp
  then have sq: "sqrt ?n \<noteq> 0" by simp
  have entry: "?t ! is ! i = Fin (?u i / sqrt ?n)" if "i < 3" for i
    using fill_zstar_mode_nth [OF assms(3,4) that, of zstar_atom c sys ?ev True] npos sq
    by (simp add: zmode_sum_real [OF assms(5)] evec_norm_real [OF assms(5)])
  have "(?u i / sqrt ?n) * (?u i / sqrt ?n) = (?u i)\<^sup>2 / ?n" for i
    using npos by (simp add: power2_eq_square)
  then have "?t ! is ! 0 * ?t ! is ! 0 + ?t ! is ! 1 * ?t ! is ! 1 + ?t ! is ! 2 * ?t ! is ! 2 =
      Fin (((?u 0)\<^sup>2 + (?u 1)\<^sup>2 + (?u 2)\<^sup>2) / ?n)"
    by (simp add: entry add_divide_distrib)
  then show ?thesis
    unfolding compute_mode_effective_charge_Inr [OF assms(1-3)] by (simp add: zmode_sumsq_def)
qed

lemma neval_dyn0: "neval dyn0 = 6"
  by (simp add: dyn0_def)

lemma mass_amu0: "mass_amu c0 sys0 j = 16"
  by (simp add: mass_amu_def c0_def sys0_def)

lemma zmode_real0:
  "i < 3 \<Longrightarrow> is < 6 \<Longrightarrow> zmode_real c0 zstar0 sys0 6 evec0 is i = zstar0 (is div 3) i (is mod 3) / 4"
  using zmode_sum_real [of 6 c0 sys0 zstar0 evec0 "is" i] zmode_sum0 [of i "is"]
  by (simp add: mass_amu0)

lemma norm_real0: "is < 6 \<Longrightarrow> norm_real c0 sys0 6 evec0 is = 1 / 16"
  using evec_norm_real [of 6 c0 sys0 evec0 "is"] evec_norm0 [of "is"]
  by (simp add: mass_amu0)

theorem normalized_mode_charge_sumsq_witness:
  "file_born dyn0 \<noteq> [] \<and> borncharge (born_ready ext0 0 dyn0) = Some zstar0 \<and>
   table_fits (neval (born_ready ext0 0 dyn0)) zstar_mode0 \<and>
   0 < neval (born_ready ext0 0 dyn0) \<and> mass_amu c0 sys0 0 = 16 \<and>
   norm_real c0 sys0 (neval (born_ready ext0 0 dyn0)) (mode_evec ext0 (born_ready ext0 0 dyn0) sys0) 0 \<noteq> 0 \<and>
   zmode_sumsq (compute_mode_effective_charge c0 ext0 dyn0 sys0 zstar_mode0 True) 0 =
     Some (Fin (((1 / 4)\<^sup>2 + (1 / 8)\<^sup>2 + (1 / 8)\<^sup>2) / (1 / 16)))"
proof -
  have a: "file_born dyn0 \<noteq> []" by (simp add: dyn0_def)
  have b: "borncharge (born_ready ext0 0 dyn0) = Some zstar0" by (simp add: dyn0_ready) (simp add: dyn0_def)
  have n: "neval (born_ready ext0 0 dyn0) = 6" by (simp add: dyn0_ready) (simp add: dyn0_def)
  have t: "table_fits (neval (born_ready ext0 0 dyn0)) zstar_mode0" by (simp add: n table_fits0)
  have k: "0 < neval (born_ready ext0 0 dyn0)" by (simp add: n)
  have m: "\<forall>j<neval (born_ready ext0 0 dyn0). 0 < mass_amu c0 sys0 j" by (simp add: mass_amu0)
  have z: "norm_real c0 sys0 (neval (born_ready ext0 0 dyn0)) (mode_evec ext0 (born_ready ext0 0 dyn0) sys0) 0 \<noteq> 0"
    by (simp add: neval_dyn0 dyn0_ready mode_evec0 norm_real0)
  show ?thesis
    using a b t k z normalized_mode_charge_sumsq [OF a b t k m z]
    by (simp add: neval_dyn0 dyn0_ready mode_evec0 norm_real0 zmode_real0 zstar0_def mass_amu0)
qed

text \<open>
  The specification has 1 for this sum of squares. In the crystal of two atoms the
  eigenvector norm of mode 0 is \<open>1 / 16\<close> and the sum of squares is \<open>3 / 2\<close>.
\<close>

theorem normalized_mode_charge_not_unit:
  "evec_norm c0 sys0 6 evec0 0 = Fin (1 / 16) \<and>
   zmode_sumsq (compute_mode_effective_charge c0 ext0 dyn0 sys0 zstar_mode0 True) 0 = Some (Fin (3 / 2)) \<and>
   Fin (3 / 2) \<noteq> 1"
proof -
  have a: "file_born dyn0 \<noteq> []" by (simp add: dyn0_def)
  have b: "borncharge (born_ready ext0 0 dyn0) = Some zstar0" by (simp add: dyn0_ready) (simp add: dyn0_def)
  have n: "neval (born_ready ext0 0 dyn0) = 6" by (simp add: dyn0_ready) (simp add: dyn0_def)
  have t: "table_fits (neval (born_ready ext0 0 dyn0)) zstar_mode0" by (simp add: n table_fits0)
  have k: "0 < neval (born_ready ext0 0 dyn0)" by (simp add: n)
  have q: "sqrt (1 / 16) = (1 / 4 :: real)"
    using real_sqrt_abs [of "1 / 4"] by (simp add: power2_eq_square)
  have e: "fill_zstar_mode zstar0 6 (normalize_evec_amu c0 sys0 6 (\<lambda>i j. of_complex (evec0 i j))) True zstar_mode0 ! 0 ! i =
      Fin (zstar0 0 i 0)" if "i < 3" for i
    using fill_zstar_mode_nth [OF t k that, of zstar0 c0 sys0 evec0 True] that
    by (simp add: n zmode_sum0 evec_norm0 q)
  have "zmode_sumsq (compute_mode_effective_charge c0 ext0 dyn0 sys0 zstar_mode0 True) 0 = Some (Fin (3 / 2))"
    unfolding compute_mode_effective_charge_Inr [OF a b t]
    by (simp add: zmode_sumsq_def neval_dyn0 dyn0_ready mode_evec0 e zstar0_def)
  then show ?thesis by (simp add: evec_norm0 one_dbl_def)
qed

text \<open>
  C8. \<open>compute_dielectric_function\<close> and \<open>compute_mode_effective_charge\<close> are
  deterministic: two invocations whose inputs are the same (eigenvalues, eigenvectors,
  Born charges, masses, volume, grid and constants, each as far as the loops index
  it) produce the same tensor series and the same table of mode effective charges.
\<close>

theorem same_inputs_same_outputs:
  fixes zstar zstar' :: "nat \<Rightarrow> nat \<Rightarrow> nat \<Rightarrow> real"
  assumes "neval dyn' = neval dyn"
    and "\<forall>l<neval dyn. mass sys' (map_p2s sys' (l div 3) 0) = mass sys (map_p2s sys (l div 3) 0)"
    and "\<forall>l<neval dyn. \<forall>i<3. zstar' (l div 3) i (l mod 3) = zstar (l div 3) i (l mod 3)"
  shows "(borncharge dyn = Some zstar \<longrightarrow> borncharge dyn' = Some zstar' \<longrightarrow>
          volume_p sys' = volume_p sys \<longrightarrow>
          (\<forall>is<neval dyn. \<forall>l<neval dyn. evec' is l = evec is l) \<longrightarrow>
          (\<forall>is. 3 \<le> is \<and> is < neval dyn \<longrightarrow> eval' is = eval is) \<longrightarrow>
          (\<forall>k<nomega_in. omega' k = omega k) \<longrightarrow>
          (\<forall>k<nomega_in. \<forall>i<3. \<forall>j<3.
             dielec_entry (compute_dielectric_function c dyn' sys' nomega_in omega' eval' evec' dielec_out') k i j =
             dielec_entry (compute_dielectric_function c dyn sys nomega_in omega eval evec dielec_out) k i j) \<and>
          (\<forall>i<neval dyn. \<forall>j<neval dyn.
             evec_entry (compute_dielectric_function c dyn' sys' nomega_in omega' eval' evec' dielec_out') i j =
             evec_entry (compute_dielectric_function c dyn sys nomega_in omega eval evec dielec_out) i j)) \<and>
         (file_born dyn \<noteq> [] \<longrightarrow> file_born dyn' \<noteq> [] \<longrightarrow>
          borncharge dyn = Some zstar \<longrightarrow> borncharge dyn' = Some zstar' \<longrightarrow>
          table_fits (neval dyn) zm \<longrightarrow>
          (\<forall>is<neval dyn. \<forall>l<neval dyn. mode_evec ext' dyn' sys' is l = mode_evec ext dyn sys is l) \<longrightarrow>
          (\<forall>is<neval dyn. \<forall>i<3.
             zmode_entry (compute_mode_effective_charge c ext' dyn' sys' zm do_normalize) is i =
             zmode_entry (compute_mode_effective_charge c ext dyn sys zm do_normalize) is i))"
proof (intro conjI impI)
  let ?ns = "neval dyn"
  assume b: "borncharge dyn = Some zstar" and b': "borncharge dyn' = Some zstar'"
    and v: "volume_p sys' = volume_p sys"
    and e: "\<forall>is<?ns. \<forall>l<?ns. evec' is l = evec is l"
    and ev: "\<forall>is. 3 \<le> is \<and> is < ?ns \<longrightarrow> eval' is = eval is"
    and om: "\<forall>k<nomega_in. omega' k = omega k"
  have sm: "sqrt_mass sys' l = sqrt_mass sys l" if "l < ?ns" for l
    using that assms(2) by (simp add: sqrt_mass_def)
  have zu: "zstar_u_spec zstar' sys' ?ns evec' i is = zstar_u_spec zstar sys ?ns evec i is"
    if "i < 3" "is < ?ns" for i "is" :: nat
    unfolding zstar_u_spec_def
    by (rule sum.cong) (use that assms(3) e sm in simp_all)
  have fa: "factor c sys' = factor c sys" by (simp add: factor_def v)
  {
    fix k i j :: nat assume k: "k < nomega_in" and i: "i < 3" and j: "j < 3"
    have "(\<Sum>is = 3..<?ns. zstar_u_spec zstar' sys' ?ns evec' i is * zstar_u_spec zstar' sys' ?ns evec' j is
              / (Fin (eval' is) - omega_conv2 c (omega' k))) =
          (\<Sum>is = 3..<?ns. zstar_u_spec zstar sys ?ns evec i is * zstar_u_spec zstar sys ?ns evec j is
              / (Fin (eval is) - omega_conv2 c (omega k)))"
      by (rule sum.cong) (use i j k zu ev om in simp_all)
    then have "dielec_entry (compute_dielectric_function c dyn' sys' nomega_in omega' eval' evec' dielec_out') k i j =
        dielec_entry (compute_dielectric_function c dyn sys nomega_in omega eval evec dielec_out) k i j"
      unfolding compute_dielectric_function_Inr [OF b] compute_dielectric_function_Inr [OF b'] assms(1)
      using k i j by (simp add: dielec_entry_def fa)
  }
  then show "\<forall>k<nomega_in. \<forall>i<3. \<forall>j<3.
      dielec_entry (compute_dielectric_function c dyn' sys' nomega_in omega' eval' evec' dielec_out') k i j =
      dielec_entry (compute_dielectric_function c dyn sys nomega_in omega eval evec dielec_out) k i j"
    by blast
  show "\<forall>i<?ns. \<forall>j<?ns.
      evec_entry (compute_dielectric_function c dyn' sys' nomega_in omega' eval' evec' dielec_out') i j =
      evec_entry (compute_dielectric_function c dyn sys nomega_in omega eval evec dielec_out) i j"
    unfolding compute_dielectric_function_Inr [OF b] compute_dielectric_function_Inr [OF b'] assms(1)
    using e sm by (simp add: evec_entry_def)
next
  let ?ns = "neval dyn"
  assume f: "file_born dyn \<noteq> []" and f': "file_born dyn' \<noteq> []"
    and b: "borncharge dyn = Some zstar" and b': "borncharge dyn' = Some zstar'"
    and t: "table_fits ?ns zm"
    and e: "\<forall>is<?ns. \<forall>l<?ns. mode_evec ext' dyn' sys' is l = mode_evec ext dyn sys is l"
  have r: "born_ready ext 0 dyn = dyn" and r': "born_ready ext' 0 dyn' = dyn'"
    using b b' by (simp_all add: born_ready_def)
  have sm: "sqrt_mass_amu c sys' l = sqrt_mass_amu c sys l" if "l < ?ns" for l
    using that assms(2) by (simp add: sqrt_mass_amu_def)
  have zs: "zmode_sum c zstar' sys' ?ns (mode_evec ext' dyn' sys') is i =
      zmode_sum c zstar sys ?ns (mode_evec ext dyn sys) is i" if "is < ?ns" "i < 3" for "is" i :: nat
    unfolding zmode_sum_def
    by (rule sum.cong) (use that assms(3) e sm in simp_all)
  have en: "evec_norm c sys' ?ns (mode_evec ext' dyn' sys') is =
      evec_norm c sys ?ns (mode_evec ext dyn sys) is" if "is < ?ns" for "is"
    unfolding evec_norm_def
    by (rule sum.cong) (use that e sm in simp_all)
  have c1: "compute_mode_effective_charge c ext dyn sys zm do_normalize =
      Inr (dyn, fill_zstar_mode zstar ?ns
        (normalize_evec_amu c sys ?ns (\<lambda>i j. of_complex (mode_evec ext dyn sys i j))) do_normalize zm)"
    using compute_mode_effective_charge_Inr [of dyn ext zstar zm c sys do_normalize] f b t
    by (simp add: r)
  have c2: "compute_mode_effective_charge c ext' dyn' sys' zm do_normalize =
      Inr (dyn', fill_zstar_mode zstar' ?ns
        (normalize_evec_amu c sys' ?ns (\<lambda>i j. of_complex (mode_evec ext' dyn' sys' i j))) do_normalize zm)"
    using compute_mode_effective_charge_Inr [of dyn' ext' zstar' zm c sys' do_normalize] f' b' t
    by (simp add: r' assms(1))
  show "\<forall>is<?ns. \<forall>i<3.
      zmode_entry (compute_mode_effective_charge c ext' dyn' sys' zm do_normalize) is i =
      zmode_entry (compute_mode_effective_charge c ext dyn sys zm do_normalize) is i"
    unfolding c1 c2
    by (simp add: zmode_entry_def fill_zstar_mode_nth [OF t] zs en)
qed

theorem same_inputs_same_outputs_witness:
  "neval dyn1 = neval dyn0 \<and>
   borncharge dyn0 = Some zstar0 \<and> borncharge dyn1 = Some zstar1 \<and>
   volume_p sys1 = volume_p sys0 \<and>
   file_born dyn0 \<noteq> [] \<and> file_born dyn1 \<noteq> [] \<and> table_fits (neval dyn0) zstar_mode0 \<and>
   sys1 \<noteq> sys0 \<and> zstar1 \<noteq> zstar0 \<and> eval1 \<noteq> eval0 \<and> evec_in1 \<noteq> evec_in0 \<and> omega1 \<noteq> omega0 \<and>
   dielec_entry (compute_dielectric_function c0 dyn1 sys1 2 omega1 eval1 evec_in1 allocate3) 0 0 1 =
     dielec_entry (compute_dielectric_function c0 dyn0 sys0 2 omega0 eval0 evec_in0 allocate3) 0 0 1 \<and>
   dielec_entry (compute_dielectric_function c0 dyn0 sys0 2 omega0 eval0 evec_in0 allocate3) 0 0 1 =
     Some (Fin (4 * pi / 15)) \<and>
   evec_entry (compute_dielectric_function c0 dyn1 sys1 2 omega1 eval1 evec_in1 allocate3) 5 5 =
     evec_entry (compute_dielectric_function c0 dyn0 sys0 2 omega0 eval0 evec_in0 allocate3) 5 5 \<and>
   zmode_entry (compute_mode_effective_charge c0 ext1 dyn1 sys1 zstar_mode0 True) 5 1 =
     zmode_entry (compute_mode_effective_charge c0 ext0 dyn0 sys0 zstar_mode0 True) 5 1"
proof -
  have n0: "neval dyn0 = 6" by (simp add: dyn0_def)
  have a1: "neval dyn1 = neval dyn0" by (simp add: dyn1_def dyn0_def)
  have l3: "l div 3 < 2" if "l < 6" for l :: nat using that by arith
  have a2: "\<forall>l<neval dyn0. mass sys1 (map_p2s sys1 (l div 3) 0) = mass sys0 (map_p2s sys0 (l div 3) 0)"
    by (simp add: n0 sys1_def sys0_def l3)
  have a3: "\<forall>l<neval dyn0. \<forall>i<3. zstar1 (l div 3) i (l mod 3) = zstar0 (l div 3) i (l mod 3)"
    by (simp add: n0 zstar1_def l3)
  have b: "borncharge dyn0 = Some zstar0" by (simp add: dyn0_def)
  have b': "borncharge dyn1 = Some zstar1" by (simp add: dyn1_def)
  have v: "volume_p sys1 = volume_p sys0" by (simp add: sys1_def sys0_def)
  have e: "\<forall>is<neval dyn0. \<forall>l<neval dyn0. evec_in1 is l = evec_in0 is l"
    by (simp add: n0 evec_in1_def)
  have ev: "\<forall>is. 3 \<le> is \<and> is < neval dyn0 \<longrightarrow> eval1 is = eval0 is"
    by (simp add: n0 eval1_def eval0_def)
  have om: "\<forall>k<2. omega1 k = omega0 k" by (simp add: omega1_def omega0_def)
  have f: "file_born dyn0 \<noteq> []" by (simp add: dyn0_def)
  have f': "file_born dyn1 \<noteq> []" by (simp add: dyn1_def)
  have t: "table_fits (neval dyn0) zstar_mode0" by (simp add: n0 table_fits0)
  have me: "\<forall>is<neval dyn0. \<forall>l<neval dyn0. mode_evec ext1 dyn1 sys1 is l = mode_evec ext0 dyn0 sys0 is l"
    by (simp add: mode_evec_def ext1_def ext0_def dyn1_def dyn0_def)
  have d1: "sys1 \<noteq> sys0"
  proof
    assume "sys1 = sys0"
    then have "mass sys1 2 = mass sys0 2" by simp
    then show False by (simp add: sys1_def sys0_def)
  qed
  have d2: "zstar1 \<noteq> zstar0"
  proof
    assume "zstar1 = zstar0"
    then have "zstar1 2 0 0 = zstar0 2 0 0" by simp
    then show False by (simp add: zstar1_def zstar0_def)
  qed
  have d3: "eval1 \<noteq> eval0"
  proof
    assume "eval1 = eval0"
    then have "eval1 0 = eval0 0" by simp
    then show False by (simp add: eval1_def eval0_def)
  qed
  have d4: "evec_in1 \<noteq> evec_in0"
  proof
    assume "evec_in1 = evec_in0"
    then have "evec_in1 6 6 = evec_in0 6 6" by simp
    then show False by (simp add: evec_in1_def evec_in0_def of_complex_def)
  qed
  have d5: "omega1 \<noteq> omega0"
  proof
    assume "omega1 = omega0"
    then have "omega1 2 = omega0 2" by simp
    then show False by (simp add: omega1_def omega0_def)
  qed
  note th = same_inputs_same_outputs [OF a1 a2 a3, where nomega_in = 2 and evec' = evec_in1
      and evec = evec_in0 and eval' = eval1 and eval = eval0 and omega' = omega1 and omega = omega0
      and c = c0 and dielec_out' = allocate3 and dielec_out = allocate3 and zm = zstar_mode0 and ext' = ext1
      and ext = ext0 and do_normalize = True]
  from conjunct1 [OF th] b b' v e ev om
  have c1: "(\<forall>k<2. \<forall>i<3. \<forall>j<3.
             dielec_entry (compute_dielectric_function c0 dyn1 sys1 2 omega1 eval1 evec_in1 allocate3) k i j =
             dielec_entry (compute_dielectric_function c0 dyn0 sys0 2 omega0 eval0 evec_in0 allocate3) k i j) \<and>
          (\<forall>i<neval dyn0. \<forall>j<neval dyn0.
             evec_entry (compute_dielectric_function c0 dyn1 sys1 2 omega1 eval1 evec_in1 allocate3) i j =
             evec_entry (compute_dielectric_function c0 dyn0 sys0 2 omega0 eval0 evec_in0 allocate3) i j)"
    by blast
  from conjunct2 [OF th] f f' b b' t me
  have c2: "\<forall>is<neval dyn0. \<forall>i<3.
             zmode_entry (compute_mode_effective_charge c0 ext1 dyn1 sys1 zstar_mode0 True) is i =
             zmode_entry (compute_mode_effective_charge c0 ext0 dyn0 sys0 zstar_mode0 True) is i"
    by blast
  have r1: "dielec_entry (compute_dielectric_function c0 dyn1 sys1 2 omega1 eval1 evec_in1 allocate3) 0 0 1 =
     dielec_entry (compute_dielectric_function c0 dyn0 sys0 2 omega0 eval0 evec_in0 allocate3) 0 0 1"
    using c1 by simp
  have r2: "evec_entry (compute_dielectric_function c0 dyn1 sys1 2 omega1 eval1 evec_in1 allocate3) 5 5 =
     evec_entry (compute_dielectric_function c0 dyn0 sys0 2 omega0 eval0 evec_in0 allocate3) 5 5"
    using c1 by (simp add: n0)
  have r3: "zmode_entry (compute_mode_effective_charge c0 ext1 dyn1 sys1 zstar_mode0 True) 5 1 =
     zmode_entry (compute_mode_effective_charge c0 ext0 dyn0 sys0 zstar_mode0 True) 5 1"
    using c2 by (simp add: n0)
  have r4: "dielec_entry (compute_dielectric_function c0 dyn0 sys0 2 omega0 eval0 evec_in0 allocate3) 0 0 1 =
     Some (Fin (4 * pi / 15))"
    using result0_entries(2) by (simp add: result0_def)
  show ?thesis
    using a1 b b' v f f' t d1 d2 d3 d4 d5 r1 r2 r3 r4 by blast
qed

section \<open>Lemmas on the operations with rounding\<close>

lemma fmul_commute: "fmul fl x y = fmul fl y x"
  by (cases "sign_bit x"; cases "sign_bit y") (auto simp: fmul_def mult.commute)

lemma fadd_zero_left: "is_zero z \<Longrightarrow> fadd fl (Num 0) z = Num 0"
  by (cases z) (simp_all add: fadd_def)

lemma fmul_zero_finite: "is_finite x \<Longrightarrow> is_zero (fmul fl (Num 0) x)"
  by (cases x) (simp_all add: fmul_def zero_def)

lemma fdiv_zero_num: "d \<noteq> NaN \<Longrightarrow> \<not> is_zero d \<Longrightarrow> is_zero (fdiv fl (Num 0) d)"
  by (cases d) (simp_all add: fdiv_def zero_def)

lemma for_sum_fl_cong:
  assumes "\<And>k. lo \<le> k \<Longrightarrow> k < hi \<Longrightarrow> f k = g k"
  shows "for_sum_fl fl lo hi f = for_sum_fl fl lo hi g"
  unfolding for_sum_fl_def
  by (rule fold_cong) (use assms in auto)

lemma for_sum_fl_zero:
  assumes "\<And>k. lo \<le> k \<Longrightarrow> k < hi \<Longrightarrow> is_zero (f k)"
  shows "for_sum_fl fl lo hi f = Num 0"
proof -
  have "fold (\<lambda>k acc. fadd fl acc (f k)) xs (Num 0) = Num 0" if "\<forall>k\<in>set xs. is_zero (f k)" for xs
    using that by (induction xs) (simp_all add: fadd_zero_left)
  then show ?thesis
    unfolding for_sum_fl_def using assms by simp
qed

lemma upt_3_6: "[3..<6] = [3, 4, 5]"
  by (simp add: upt_rec)

lemma upt_0_6: "[0..<6] = [0, 1, 2, 3, 4, 5]"
  by (simp add: upt_rec)

lemma for_sum_fl_3_6:
  "for_sum_fl fl 3 6 f = fadd fl (fadd fl (fadd fl (Num 0) (f 3)) (f 4)) (f 5)"
  by (simp add: for_sum_fl_def upt_3_6)

lemma sqrt_4: "sqrt 4 = (2::real)"
  using real_sqrt_abs [of 2] by simp

lemma sqrt_16: "sqrt 16 = (4::real)"
  using real_sqrt_abs [of 4] by simp

text \<open>With the rounding \<open>fl_exact\<close>.\<close>

lemma fmul_exact: "a \<noteq> 0 \<Longrightarrow> b \<noteq> 0 \<Longrightarrow> fmul fl_exact (Num a) (Num b) = Num (a * b)"
  by (simp add: fmul_def fl_exact_def)

lemma fmul_exact_zero: "fmul fl_exact (Num a) (Num 0) = zero (a < 0)"
  by (simp add: fmul_def)

lemma fadd_exact: "fadd fl_exact (Num a) (Num b) = Num (a + b)"
  by (simp add: fadd_def fl_exact_def)

lemma fadd_exact_zero: "fadd fl_exact (Num a) (zero s) = Num a"
  by (simp add: fadd_def fl_exact_def zero_def)

lemma fsub_exact: "fsub fl_exact (Num a) (Num b) = Num (a - b)"
  by (simp add: fsub_def fadd_def fl_exact_def)

lemma fdiv_exact: "a \<noteq> 0 \<Longrightarrow> b \<noteq> 0 \<Longrightarrow> fdiv fl_exact (Num a) (Num b) = Num (a / b)"
  by (simp add: fdiv_def fl_exact_def)

section \<open>The loops with rounding\<close>

lemma normalize_evec_in_fl_eq:
  "normalize_evec_in_fl fl sys ns evec_in =
     (\<lambda>i j. if i < ns \<and> j < ns then cdiv_scalar_fl fl (evec_in i j) (sqrt_mass_fl fl sys j)
            else evec_in i j)"
  by (intro ext) (simp add: normalize_evec_in_fl_def for_fill_upto)

lemma fill_zstar_u_fl_eq:
  "fill_zstar_u_fl fl zstar ns evec zu =
     (\<lambda>i is. if i < 3 \<and> is < ns
        then for_sum_fl fl 0 ns (\<lambda>j. fmul fl (Num (zstar (j div 3) i (j mod 3))) (freal (evec is j)))
        else zu i is)"
  by (intro ext) (simp add: fill_zstar_u_fl_def for_fill_upto)

lemma fill_s_born_fl_eq:
  "fill_s_born_fl fl ns zu sb =
     (\<lambda>i j is. if i < 3 \<and> j < 3 \<and> is < ns then fmul fl (zu i is) (zu j is) else sb i j is)"
  by (intro ext) (simp add: fill_s_born_fl_def for_fill_upto)

lemma fill_dielec_out_fl_eq:
  "fill_dielec_out_fl fl c sys ns nomega_in omega eval sb d =
     (\<lambda>iomega i j. if iomega < nomega_in \<and> i < 3 \<and> j < 3
        then fmul fl
               (for_sum_fl fl 3 ns (\<lambda>is. fdiv fl (sb i j is)
                  (fsub fl (Num (eval is)) (w2_tmp_fl fl c (omega iomega)))))
               (factor_fl fl c sys)
        else d iomega i j)"
  by (intro ext) (simp add: fill_dielec_out_fl_def for_fill_upto Let_def)

lemma compute_dielectric_function_fl_Inr:
  assumes "borncharge dyn = Some zstar"
  shows "compute_dielectric_function_fl fl c dyn sys nomega_in omega eval evec dielec_out =
    Inr (normalize_evec_in_fl fl sys (neval dyn) evec,
         \<lambda>iomega i j. if iomega < nomega_in \<and> i < 3 \<and> j < 3
           then fmul fl
             (for_sum_fl fl 3 (neval dyn) (\<lambda>is.
                fdiv fl
                  (fmul fl
                     (for_sum_fl fl 0 (neval dyn) (\<lambda>l. fmul fl (Num (zstar (l div 3) i (l mod 3)))
                        (freal (normalize_evec_in_fl fl sys (neval dyn) evec is l))))
                     (for_sum_fl fl 0 (neval dyn) (\<lambda>l. fmul fl (Num (zstar (l div 3) j (l mod 3)))
                        (freal (normalize_evec_in_fl fl sys (neval dyn) evec is l)))))
                  (fsub fl (Num (eval is)) (w2_tmp_fl fl c (omega iomega)))))
             (factor_fl fl c sys)
           else dielec_out iomega i j)"
proof -
  let ?ns = "neval dyn"
  let ?e = "normalize_evec_in_fl fl sys ?ns evec"
  let ?zu = "fill_zstar_u_fl fl zstar ?ns ?e allocate2_fl"
  have "for_sum_fl fl 3 ?ns (\<lambda>is. fdiv fl (fill_s_born_fl fl ?ns ?zu allocate3_fl i j is)
            (fsub fl (Num (eval is)) (w2_tmp_fl fl c (omega k)))) =
        for_sum_fl fl 3 ?ns (\<lambda>is.
          fdiv fl
            (fmul fl
               (for_sum_fl fl 0 ?ns (\<lambda>l. fmul fl (Num (zstar (l div 3) i (l mod 3))) (freal (?e is l))))
               (for_sum_fl fl 0 ?ns (\<lambda>l. fmul fl (Num (zstar (l div 3) j (l mod 3))) (freal (?e is l)))))
            (fsub fl (Num (eval is)) (w2_tmp_fl fl c (omega k))))"
    if "i < 3" "j < 3" for i j k
    by (rule for_sum_fl_cong) (use that in \<open>simp add: fill_s_born_fl_eq fill_zstar_u_fl_eq\<close>)
  then have "fill_dielec_out_fl fl c sys ?ns nomega_in omega eval
      (fill_s_born_fl fl ?ns ?zu allocate3_fl) dielec_out =
    (\<lambda>iomega i j. if iomega < nomega_in \<and> i < 3 \<and> j < 3
           then fmul fl
             (for_sum_fl fl 3 ?ns (\<lambda>is.
                fdiv fl
                  (fmul fl
                     (for_sum_fl fl 0 ?ns (\<lambda>l. fmul fl (Num (zstar (l div 3) i (l mod 3))) (freal (?e is l))))
                     (for_sum_fl fl 0 ?ns (\<lambda>l. fmul fl (Num (zstar (l div 3) j (l mod 3))) (freal (?e is l)))))
                  (fsub fl (Num (eval is)) (w2_tmp_fl fl c (omega iomega)))))
             (factor_fl fl c sys)
           else dielec_out iomega i j)"
    by (intro ext) (simp add: fill_dielec_out_fl_eq)
  then show ?thesis
    using assms by (simp add: compute_dielectric_function_fl_def Let_def)
qed

lemma normalize_evec_amu_fl_eq:
  "normalize_evec_amu_fl fl c sys ns evec =
     (\<lambda>i j. if i < ns \<and> j < ns then cdiv_scalar_fl fl (evec i j) (sqrt_mass_amu_fl fl c sys j)
            else evec i j)"
  by (intro ext) (simp add: normalize_evec_amu_fl_def for_fill_upto)

lemma mode_sums_fl_eq:
  "mode_sums_fl fl z ns evec m i =
     (for_sum_fl fl 0 ns (\<lambda>j. fmul fl (Num (z (j div 3) i (j mod 3))) (freal (evec m j))),
      for_sum_fl fl 0 ns (\<lambda>j. cnorm_fl fl (evec m j)))"
proof -
  have "fold (\<lambda>j (a, b). (fadd fl a (f j), fadd fl b (g j))) xs (a0, b0) =
        (fold (\<lambda>j a. fadd fl a (f j)) xs a0, fold (\<lambda>j b. fadd fl b (g j)) xs b0)"
    for f g :: "nat \<Rightarrow> ieee" and xs a0 b0
    by (induction xs arbitrary: a0 b0) simp_all
  then show ?thesis
    by (simp add: mode_sums_fl_def for_sum_fl_def)
qed

lemma set_entry_fl_length [simp]: "length (set_entry_fl zm m i v) = length zm"
  by (simp add: set_entry_fl_def)

lemma set_entry_fl_row_length [simp]: "length (set_entry_fl zm m i v ! a) = length (zm ! a)"
  by (cases "m < length zm") (simp_all add: set_entry_fl_def nth_list_update list_update_beyond)

lemma set_entry_fl_nth:
  "a < length zm \<Longrightarrow> b < length (zm ! a) \<Longrightarrow>
   set_entry_fl zm m i v ! a ! b = (if a = m \<and> b = i then v else zm ! a ! b)"
  by (cases "a = m") (simp_all add: set_entry_fl_def nth_list_update)

lemma fold_set_entry_fl_rows:
  "length (fold (\<lambda>m zm. set_entry_fl zm m i (h m)) xs zm) = length zm \<and>
   (\<forall>a. length (fold (\<lambda>m zm. set_entry_fl zm m i (h m)) xs zm ! a) = length (zm ! a)) \<and>
   (\<forall>a b. a < length zm \<longrightarrow> b < length (zm ! a) \<longrightarrow>
      fold (\<lambda>m zm. set_entry_fl zm m i (h m)) xs zm ! a ! b =
        (if a \<in> set xs \<and> b = i then h a else zm ! a ! b))"
proof (induction xs rule: rev_induct)
  case Nil
  show ?case by simp
next
  case (snoc x xs)
  then show ?case by (auto simp: set_entry_fl_nth)
qed

lemma fold_set_entry_fl_table:
  "length (fold (\<lambda>i. fold (\<lambda>m zm. set_entry_fl zm m i (h m i)) xs) ys zm) = length zm \<and>
   (\<forall>a. length (fold (\<lambda>i. fold (\<lambda>m zm. set_entry_fl zm m i (h m i)) xs) ys zm ! a) = length (zm ! a)) \<and>
   (\<forall>a b. a < length zm \<longrightarrow> b < length (zm ! a) \<longrightarrow>
      fold (\<lambda>i. fold (\<lambda>m zm. set_entry_fl zm m i (h m i)) xs) ys zm ! a ! b =
        (if a \<in> set xs \<and> b \<in> set ys then h a b else zm ! a ! b))"
proof (induction ys rule: rev_induct)
  case Nil
  show ?case by simp
next
  case (snoc y ys)
  let ?zm = "fold (\<lambda>i. fold (\<lambda>m zm. set_entry_fl zm m i (h m i)) xs) ys zm"
  note rows = fold_set_entry_fl_rows [of y "\<lambda>m. h m y" xs ?zm]
  show ?case using snoc rows by auto
qed

lemma fill_zstar_mode_fl_nth:
  assumes "table_fits_fl ns zm" "m < ns" "i < 3"
  shows "fill_zstar_mode_fl fl z ns evec b zm ! m ! i =
     (let s = for_sum_fl fl 0 ns (\<lambda>j. fmul fl (Num (z (j div 3) i (j mod 3))) (freal (evec m j)))
      in if b then fdiv fl s (fsqrt fl (for_sum_fl fl 0 ns (\<lambda>j. cnorm_fl fl (evec m j)))) else s)"
proof -
  let ?h = "\<lambda>m i. let (s, normalization_factor) = mode_sums_fl fl z ns evec m i
             in (if b then fdiv fl s (fsqrt fl normalization_factor) else s)"
  have eq: "fill_zstar_mode_fl fl z ns evec b zm =
      fold (\<lambda>i. fold (\<lambda>m zm. set_entry_fl zm m i (?h m i)) [0..<ns]) [0..<3] zm"
    by (simp add: fill_zstar_mode_fl_def Let_def case_prod_beta)
  have fits: "ns \<le> length zm" "\<forall>n<ns. 3 \<le> length (zm ! n)"
    using assms(1) by (simp_all add: table_fits_fl_def list_all_length)
  have len: "m < length zm" "i < length (zm ! m)"
    using fits assms(2,3) by force+
  have "fill_zstar_mode_fl fl z ns evec b zm ! m ! i = ?h m i"
    unfolding eq using fold_set_entry_fl_table [of ?h "[0..<ns]" "[0..<3]" zm] len assms by simp
  then show ?thesis by (simp add: mode_sums_fl_eq Let_def)
qed

lemma compute_mode_effective_charge_fl_Inr:
  assumes "file_born dyn \<noteq> []"
    and "borncharge (born_ready ext 0 dyn) = Some zstar_atom"
    and "table_fits_fl (neval (born_ready ext 0 dyn)) zm"
  shows "compute_mode_effective_charge_fl fl c ext dyn sys zm b =
     Inr (born_ready ext 0 dyn,
          fill_zstar_mode_fl fl zstar_atom (neval (born_ready ext 0 dyn))
            (evec_amu_fl fl c ext dyn sys) b zm)"
  using assms by (simp add: compute_mode_effective_charge_fl_def Let_def evec_amu_fl_def)

text \<open>The run with its calls ends as the function does, and in the state that it returns.\<close>

lemma compute_mode_effective_charge_run_result:
  "compute_mode_effective_charge_fl fl c ext dyn sys zstar_mode do_normalize =
     (case ended (compute_mode_effective_charge_run fl c ext dyn sys zstar_mode do_normalize) of
        Some e \<Rightarrow> Inl e
      | None \<Rightarrow>
          Inr (state (compute_mode_effective_charge_run fl c ext dyn sys zstar_mode do_normalize)))"
  by (simp add: compute_mode_effective_charge_fl_def compute_mode_effective_charge_run_def Let_def
      split: option.splits)

section \<open>The example crystal with rounding\<close>

lemma c_pi_c2: "c_pi c2 = 884279719003555 / 2 ^ 48"
  by (simp add: c2_def)

lemma zstar0_nonzero: "zstar0 a i k \<noteq> 0"
  by (simp add: zstar0_def)

lemma neval_dyn_zero: "neval dyn_zero = 6"
  by (simp add: dyn_zero_def dyn0_def)

lemma file_born_dyn_zero: "file_born dyn_zero \<noteq> []"
  by (simp add: dyn_zero_def dyn0_def)

lemma borncharge_dyn_zero: "borncharge dyn_zero = Some (\<lambda>a i k. 0)"
  by (simp add: dyn_zero_def)


lemma file_born_no_born: "file_born dyn_no_born = []"
  by (simp add: dyn_no_born_def)

lemma evec_fl0_finite:
  "is_finite (freal (normalize_evec_in_fl fl_exact sys0 6 evec_fl0 is l))"
proof -
  have "sqrt 4 = (2::real)" using real_sqrt_abs [of 2] by simp
  then show ?thesis
    by (simp add: normalize_evec_in_fl_eq cdiv_scalar_fl_def sqrt_mass_fl_def sys0_def evec_fl0_def
        of_complex_fl_def evec0_def fdiv_def fl_exact_def zero_def)
qed

lemma evec_fl0_normalized:
  "m < 6 \<Longrightarrow> l < 6 \<Longrightarrow>
   freal (normalize_evec_in_fl fl_exact sys0 6 evec_fl0 m l) = Num (if m = l then 1 / 2 else 0)"
  by (simp add: normalize_evec_in_fl_eq cdiv_scalar_fl_def sqrt_mass_fl_def sys0_def evec_fl0_def
      of_complex_fl_def evec0_def fdiv_def fl_exact_def zero_def sqrt_4)

lemma w2_tmp_exact: "w2_tmp_fl fl_exact c2 w = Num (w * w)"
  by (simp add: w2_tmp_fl_def freq_conv_factor_fl_def c2_def fmul_def fdiv_def fl_exact_def zero_def)

lemma factor_fl0: "factor_fl fl_exact c2 sys0 = Num (4 * (884279719003555 / 2 ^ 48))"
  by (simp add: factor_fl_def sys0_def fmul_exact fdiv_exact c_pi_c2)

lemma zstar_u_fl0:
  "i < 3 \<Longrightarrow> m < 6 \<Longrightarrow>
   for_sum_fl fl_exact 0 6 (\<lambda>l. fmul fl_exact (Num (zstar0 (l div 3) i (l mod 3)))
      (freal (normalize_evec_in_fl fl_exact sys0 6 evec_fl0 m l))) =
   Num (zstar0 (m div 3) i (m mod 3) / 2)"
proof -
  assume i: "i < 3" and m: "m < 6"
  have "for_sum_fl fl_exact 0 6 (\<lambda>l. fmul fl_exact (Num (zstar0 (l div 3) i (l mod 3)))
      (freal (normalize_evec_in_fl fl_exact sys0 6 evec_fl0 m l))) =
        for_sum_fl fl_exact 0 6 (\<lambda>l. if m = l then Num (zstar0 (m div 3) i (m mod 3) / 2)
            else zero (zstar0 (l div 3) i (l mod 3) < 0))"
    by (rule for_sum_fl_cong)
      (use m in \<open>simp add: evec_fl0_normalized fmul_exact fmul_exact_zero zstar0_nonzero\<close>)
  also have "\<dots> = Num (zstar0 (m div 3) i (m mod 3) / 2)"
  proof -
    from m have "m = 0 \<or> m = 1 \<or> m = 2 \<or> m = 3 \<or> m = 4 \<or> m = 5" by auto
    then show ?thesis
      by (elim disjE) (simp_all add: for_sum_fl_def upt_0_6 fadd_exact fadd_exact_zero)
  qed
  finally show ?thesis .
qed

lemma result_fl0_entry_01:
  "dielec_entry_fl result_fl0 1 0 1 = Some (Num (41 / 120 * (884279719003555 / 2 ^ 48)))"
proof -
  have b: "borncharge dyn0 = Some zstar0" and n: "neval dyn0 = 6" by (simp_all add: dyn0_def)
  have "dielec_entry_fl result_fl0 1 0 1 = Some (fmul fl_exact
             (for_sum_fl fl_exact 3 6 (\<lambda>m.
                fdiv fl_exact
                  (fmul fl_exact (Num (zstar0 (m div 3) 0 (m mod 3) / 2)) (Num (zstar0 (m div 3) 1 (m mod 3) / 2)))
                  (fsub fl_exact (Num (eval0 m)) (w2_tmp_fl fl_exact c2 (omega0 1)))))
             (factor_fl fl_exact c2 sys0))"
    unfolding result_fl0_def compute_dielectric_function_fl_Inr [OF b] n
    by (simp add: dielec_entry_fl_def zstar_u_fl0 for_sum_fl_3_6)
  also have "\<dots> = Some (Num (41 / 120 * (884279719003555 / 2 ^ 48)))"
    by (simp add: for_sum_fl_3_6 w2_tmp_exact omega0_def eval0_def fsub_exact fmul_exact
        fdiv_exact fadd_exact factor_fl0 zstar0_def)
  finally show ?thesis .
qed

lemma zstar_u_zero:
  assumes "\<forall>a i k. zstar a i k = 0" and "\<forall>l<ns. is_finite (freal (e m l))"
  shows "for_sum_fl fl 0 ns (\<lambda>l. fmul fl (Num (zstar (l div 3) i (l mod 3))) (freal (e m l))) = Num 0"
  by (rule for_sum_fl_zero) (use assms in \<open>simp add: fmul_zero_finite\<close>)

lemma zero_born_dielec_entry:
  assumes z: "\<forall>a i k. zstar a i k = 0"
    and b: "borncharge dyn = Some zstar" and k: "k < nomega_in" and i: "i < 3" and j: "j < 3"
    and e: "\<forall>is<neval dyn. \<forall>l<neval dyn.
              is_finite (freal (normalize_evec_in_fl fl sys (neval dyn) evec is l))"
  shows "dielec_entry_fl (compute_dielectric_function_fl fl c dyn sys nomega_in omega eval evec dielec_out) k i j =
     Some (fmul fl
       (for_sum_fl fl 3 (neval dyn) (\<lambda>is.
          fdiv fl (Num 0) (fsub fl (Num (eval is)) (w2_tmp_fl fl c (omega k)))))
       (factor_fl fl c sys))"
proof -
  have "for_sum_fl fl 3 (neval dyn) (\<lambda>is.
                fdiv fl
                  (fmul fl
                     (for_sum_fl fl 0 (neval dyn) (\<lambda>l. fmul fl (Num (zstar (l div 3) i (l mod 3)))
                        (freal (normalize_evec_in_fl fl sys (neval dyn) evec is l))))
                     (for_sum_fl fl 0 (neval dyn) (\<lambda>l. fmul fl (Num (zstar (l div 3) j (l mod 3)))
                        (freal (normalize_evec_in_fl fl sys (neval dyn) evec is l)))))
                  (fsub fl (Num (eval is)) (w2_tmp_fl fl c (omega k)))) =
        for_sum_fl fl 3 (neval dyn) (\<lambda>is.
          fdiv fl (Num 0) (fsub fl (Num (eval is)) (w2_tmp_fl fl c (omega k))))"
  proof (rule for_sum_fl_cong)
    fix "is" assume "3 \<le> is" "is < neval dyn"
    then have f: "\<forall>l<neval dyn. is_finite (freal (normalize_evec_in_fl fl sys (neval dyn) evec is l))"
      using e by simp
    show "fdiv fl
                  (fmul fl
                     (for_sum_fl fl 0 (neval dyn) (\<lambda>l. fmul fl (Num (zstar (l div 3) i (l mod 3)))
                        (freal (normalize_evec_in_fl fl sys (neval dyn) evec is l))))
                     (for_sum_fl fl 0 (neval dyn) (\<lambda>l. fmul fl (Num (zstar (l div 3) j (l mod 3)))
                        (freal (normalize_evec_in_fl fl sys (neval dyn) evec is l)))))
                  (fsub fl (Num (eval is)) (w2_tmp_fl fl c (omega k))) =
          fdiv fl (Num 0) (fsub fl (Num (eval is)) (w2_tmp_fl fl c (omega k)))"
      unfolding zstar_u_zero [where e = "normalize_evec_in_fl fl sys (neval dyn) evec"
          and m = "is" and ns = "neval dyn", OF z f]
      by (simp add: fmul_def zero_def)
  qed
  then show ?thesis
    unfolding compute_dielectric_function_fl_Inr [OF b]
    using k i j by (simp add: dielec_entry_fl_def)
qed

lemma pole_entries:
  "i < 3 \<Longrightarrow> j < 3 \<Longrightarrow> dielec_entry_fl pole_result 2 i j = Some NaN"
proof -
  assume i: "i < 3" and j: "j < 3"
  have z: "\<forall>a i k. (\<lambda>a i k. 0::real) a i k = 0" by simp
  have b: "borncharge dyn_zero = Some (\<lambda>a i k. 0)" by (simp add: dyn_zero_def)
  have n: "neval dyn_zero = 6" by (simp add: dyn_zero_def dyn0_def)
  have k: "(2::nat) < 3" by simp
  have e: "\<forall>is<neval dyn_zero. \<forall>l<neval dyn_zero.
      is_finite (freal (normalize_evec_in_fl fl_exact sys0 (neval dyn_zero) evec_fl0 is l))"
    by (simp add: n evec_fl0_finite)
  show ?thesis
    unfolding pole_result_def zero_born_dielec_entry [OF z b k i j e] n
    by (simp add: for_sum_fl_def upt_3_6 w2_tmp_exact omega0_def eval0_def fsub_def fadd_def
        fdiv_def fmul_def)
qed

lemma mode_evec_zero: "mode_evec ext0 dyn_zero sys0 = evec0"
  by (simp add: mode_evec_def dyn_zero_def dyn0_def ext0_def)

lemma born_ready_zero: "born_ready ext0 0 dyn_zero = dyn_zero"
  by (simp add: born_ready_def dyn_zero_def)

lemma sqrt_mass_amu_fl0: "sqrt_mass_amu_fl fl_exact c2 sys0 j = Num 4"
  by (simp add: sqrt_mass_amu_fl_def sys0_def c2_def fdiv_exact fl_exact_def sqrt_16)

lemma evec_amu_fl0:
  "m < 6 \<Longrightarrow> l < 6 \<Longrightarrow>
   evec_amu_fl fl_exact c2 ext0 dyn_zero sys0 m l =
     \<lparr>freal = Num (if m = l then 1 / 4 else 0), fimag = Num 0\<rparr>"
  by (simp add: evec_amu_fl_def born_ready_zero mode_evec_zero normalize_evec_amu_fl_eq
      cdiv_scalar_fl_def sqrt_mass_amu_fl0 of_complex_fl_def evec0_def fdiv_def fl_exact_def
      zero_def neval_dyn_zero)

lemma sqrt_norm_fl0: "m < 6 \<Longrightarrow> sqrt_norm_fl fl_exact c2 ext0 dyn_zero sys0 m = Num (1 / 4)"
proof -
  assume m: "m < 6"
  have n: "neval (born_ready ext0 0 dyn_zero) = 6"
    by (simp add: born_ready_zero neval_dyn_zero)
  have "for_sum_fl fl_exact 0 6 (\<lambda>j. cnorm_fl fl_exact (evec_amu_fl fl_exact c2 ext0 dyn_zero sys0 m j)) =
        for_sum_fl fl_exact 0 6 (\<lambda>j. Num (if m = j then 1 / 16 else 0))"
    by (rule for_sum_fl_cong)
      (use m in \<open>simp add: evec_amu_fl0 cnorm_fl_def fmul_def fadd_def zero_def fl_exact_def\<close>)
  also have "\<dots> = Num (1 / 16)"
  proof -
    from m have "m = 0 \<or> m = 1 \<or> m = 2 \<or> m = 3 \<or> m = 4 \<or> m = 5" by auto
    then show ?thesis
      by (elim disjE) (simp_all add: for_sum_fl_def upt_0_6 fadd_exact)
  qed
  finally show ?thesis
    by (simp add: sqrt_norm_fl_def n fl_exact_def real_sqrt_divide sqrt_16)
qed

section \<open>Symmetry of the tensor\<close>

lemma entries_compare_equal_eq:
  "entries_compare_equal r k i j =
     (case (dielec_entry_fl r k i j, dielec_entry_fl r k j i) of
        (Some x, Some y) \<Rightarrow> Some (cpp_eq x y) | _ \<Rightarrow> None)"
  by (simp add: entries_compare_equal_def dielec_entry_fl_def split: sum.splits prod.splits)

text \<open>
  C5. For every rounding, every grid index \<open>k\<close> below \<open>nomega_in\<close> and all Cartesian
  indices \<open>i\<close> and \<open>j\<close>, the entries \<open>dielec[k][i][j]\<close> and \<open>dielec[k][j][i]\<close> that
  \<open>compute_dielectric_function\<close> stores are the same value: \<open>s_born[i][j][is]\<close> and
  \<open>s_born[j][i][is]\<close> are the two orders of one rounded product, and the same sum and
  the same factor follow. The comparison \<open>dielec[k][i][j] == dielec[k][j][i]\<close> is therefore
  true exactly when the entry is not NaN; for a NaN entry it is false.
\<close>

theorem dielectric_tensor_symmetric:
  assumes "k < nomega_in" and "i < 3" and "j < 3"
  shows "dielec_entry_fl
           (compute_dielectric_function_fl fl c dyn sys nomega_in omega eval evec dielec_out) k i j =
         dielec_entry_fl
           (compute_dielectric_function_fl fl c dyn sys nomega_in omega eval evec dielec_out) k j i \<and>
         entries_compare_equal
           (compute_dielectric_function_fl fl c dyn sys nomega_in omega eval evec dielec_out) k i j =
         map_option (\<lambda>x. x \<noteq> NaN)
           (dielec_entry_fl
              (compute_dielectric_function_fl fl c dyn sys nomega_in omega eval evec dielec_out) k i j)"
proof -
  let ?r = "compute_dielectric_function_fl fl c dyn sys nomega_in omega eval evec dielec_out"
  have sym: "dielec_entry_fl ?r k i j = dielec_entry_fl ?r k j i"
  proof (cases "borncharge dyn")
    case None
    with assms show ?thesis
      by (simp add: compute_dielectric_function_fl_def Let_def fill_dielec_out_fl_eq
          dielec_entry_fl_def allocate3_fl_def)
  next
    case (Some zstar)
    let ?zu = "fill_zstar_u_fl fl zstar (neval dyn)
                 (normalize_evec_in_fl fl sys (neval dyn) evec) allocate2_fl"
    have "for_sum_fl fl 3 (neval dyn) (\<lambda>is. fdiv fl (fill_s_born_fl fl (neval dyn) ?zu allocate3_fl i j is)
              (fsub fl (Num (eval is)) (w2_tmp_fl fl c (omega k)))) =
          for_sum_fl fl 3 (neval dyn) (\<lambda>is. fdiv fl (fill_s_born_fl fl (neval dyn) ?zu allocate3_fl j i is)
              (fsub fl (Num (eval is)) (w2_tmp_fl fl c (omega k))))"
      by (rule for_sum_fl_cong) (use assms in \<open>simp add: fill_s_born_fl_eq fmul_commute\<close>)
    with Some assms show ?thesis
      by (simp add: compute_dielectric_function_fl_def Let_def fill_dielec_out_fl_eq
          dielec_entry_fl_def)
  qed
  have "entries_compare_equal ?r k i j = map_option (\<lambda>x. x \<noteq> NaN) (dielec_entry_fl ?r k i j)"
    using sym by (auto simp: entries_compare_equal_def dielec_entry_fl_def cpp_eq_def
        split: sum.splits)
  with sym show ?thesis by simp
qed

text \<open>
  At grid point 1 of the example crystal, with the rounding \<open>fl_exact\<close>, the two entries
  \<open>(0, 1)\<close> and \<open>(1, 0)\<close> are the same number, \<open>41 / 120\<close> times the constant \<open>c_pi\<close>,
  and compare equal.
\<close>

theorem dielectric_tensor_symmetric_witness:
  "dielec_entry_fl result_fl0 1 0 1 = Some (Num (41 / 120 * (884279719003555 / 2 ^ 48))) \<and>
   dielec_entry_fl result_fl0 1 1 0 = Some (Num (41 / 120 * (884279719003555 / 2 ^ 48))) \<and>
   entries_compare_equal result_fl0 1 0 1 = Some True"
  using dielectric_tensor_symmetric [where k = 1 and nomega_in = 3 and i = 0 and j = 1
      and fl = fl_exact and c = c2 and dyn = dyn0 and sys = sys0 and omega = omega0
      and eval = eval0 and evec = evec_fl0 and dielec_out = allocate3_fl]
    result_fl0_entry_01
  by (simp add: result_fl0_def)

text \<open>
  At grid point 2 of the example crystal with zero Born charges the square of the grid
  value is the eigenvalue of mode 3: the term of that mode is \<open>0 / 0\<close>, every entry of
  the tensor at that point is NaN, and no entry compares equal to its transpose, nor a
  diagonal entry to itself.
\<close>

theorem dielectric_tensor_nan_entries:
  "dielec_entry_fl pole_result 2 0 1 = Some NaN \<and>
   dielec_entry_fl pole_result 2 1 0 = Some NaN \<and>
   entries_compare_equal pole_result 2 0 1 = Some False \<and>
   entries_compare_equal pole_result 2 0 0 = Some False"
  by (simp add: entries_compare_equal_eq pole_entries cpp_eq_def)

section \<open>Zero Born charges\<close>

text \<open>
  C7. Let every entry of every Born charge tensor be zero, for any rounding. At a grid
  point \<open>k\<close> below \<open>nomega_in\<close>, if the eigenvector components are finite after the
  division by the square root of the mass, if no computed denominator
  \<open>eval[is] - w2_tmp\<close> of a mode \<open>is\<close> from 3 to \<open>ns - 1\<close> is a zero or NaN, and if the
  computed factor \<open>8 * pi / V\<close> is finite, then every entry \<open>dielec[k][i][j]\<close> is a zero.
  With the Born charge file configured and a table of \<open>ns\<close> rows of three entries, if the
  components of the eigenvector of mode \<open>n\<close> are finite after the division by
  \<open>sqrt (mass / amu_ry)\<close> and if, when normalization is requested, the computed divisor
  \<open>sqrt (normalization_factor)\<close> is neither a zero nor NaN, then every mode effective
  charge \<open>zstar_mode[n][i]\<close> is a zero.
\<close>

theorem zero_born_charges:
  assumes "\<forall>a i k. zstar a i k = 0"
  shows "(borncharge dyn = Some zstar \<longrightarrow> k < nomega_in \<longrightarrow> i < 3 \<longrightarrow> j < 3 \<longrightarrow>
          (\<forall>m<neval dyn. \<forall>l<neval dyn.
             is_finite (freal (normalize_evec_in_fl fl sys (neval dyn) evec m l))) \<longrightarrow>
          (\<forall>m. 3 \<le> m \<and> m < neval dyn \<longrightarrow>
             fsub fl (Num (eval m)) (w2_tmp_fl fl c (omega k)) \<noteq> NaN \<and>
             \<not> is_zero (fsub fl (Num (eval m)) (w2_tmp_fl fl c (omega k)))) \<longrightarrow>
          is_finite (factor_fl fl c sys) \<longrightarrow>
          map_option is_zero
            (dielec_entry_fl
               (compute_dielectric_function_fl fl c dyn sys nomega_in omega eval evec dielec_out) k i j)
            = Some True) \<and>
         (file_born dyn \<noteq> [] \<longrightarrow> borncharge (born_ready ext 0 dyn) = Some zstar \<longrightarrow>
          table_fits_fl (neval (born_ready ext 0 dyn)) zm \<longrightarrow>
          n < neval (born_ready ext 0 dyn) \<longrightarrow> i < 3 \<longrightarrow>
          (\<forall>l<neval (born_ready ext 0 dyn). is_finite (freal (evec_amu_fl fl c ext dyn sys n l))) \<longrightarrow>
          (do_normalize \<longrightarrow>
             sqrt_norm_fl fl c ext dyn sys n \<noteq> NaN \<and> \<not> is_zero (sqrt_norm_fl fl c ext dyn sys n)) \<longrightarrow>
          map_option is_zero
            (zmode_entry_fl (compute_mode_effective_charge_fl fl c ext dyn sys zm do_normalize) n i)
            = Some True)"
proof (intro conjI impI)
  assume b: "borncharge dyn = Some zstar" and k: "k < nomega_in" and i: "i < 3" and j: "j < 3"
    and e: "\<forall>m<neval dyn. \<forall>l<neval dyn.
             is_finite (freal (normalize_evec_in_fl fl sys (neval dyn) evec m l))"
    and p: "\<forall>m. 3 \<le> m \<and> m < neval dyn \<longrightarrow>
             fsub fl (Num (eval m)) (w2_tmp_fl fl c (omega k)) \<noteq> NaN \<and>
             \<not> is_zero (fsub fl (Num (eval m)) (w2_tmp_fl fl c (omega k)))"
    and f: "is_finite (factor_fl fl c sys)"
  have "for_sum_fl fl 3 (neval dyn) (\<lambda>m.
          fdiv fl (Num 0) (fsub fl (Num (eval m)) (w2_tmp_fl fl c (omega k)))) = Num 0"
    by (rule for_sum_fl_zero) (use p in \<open>simp add: fdiv_zero_num\<close>)
  then show "map_option is_zero
            (dielec_entry_fl
               (compute_dielectric_function_fl fl c dyn sys nomega_in omega eval evec dielec_out) k i j)
            = Some True"
    unfolding zero_born_dielec_entry [OF assms b k i j e]
    using f by (simp add: fmul_zero_finite)
next
  let ?ns = "neval (born_ready ext 0 dyn)"
  assume fb: "file_born dyn \<noteq> []" and b: "borncharge (born_ready ext 0 dyn) = Some zstar"
    and t: "table_fits_fl ?ns zm" and n: "n < ?ns" and i: "i < 3"
    and e: "\<forall>l<?ns. is_finite (freal (evec_amu_fl fl c ext dyn sys n l))"
    and s: "do_normalize \<longrightarrow>
             sqrt_norm_fl fl c ext dyn sys n \<noteq> NaN \<and> \<not> is_zero (sqrt_norm_fl fl c ext dyn sys n)"
  have z: "for_sum_fl fl 0 ?ns (\<lambda>l. fmul fl (Num (zstar (l div 3) i (l mod 3)))
             (freal (evec_amu_fl fl c ext dyn sys n l))) = Num 0"
    by (rule zstar_u_zero [where e = "evec_amu_fl fl c ext dyn sys", OF assms e])
  have d: "is_zero (fdiv fl (Num 0) (sqrt_norm_fl fl c ext dyn sys n))" if do_normalize
    using that s by (simp add: fdiv_zero_num)
  show "map_option is_zero
            (zmode_entry_fl (compute_mode_effective_charge_fl fl c ext dyn sys zm do_normalize) n i)
            = Some True"
    unfolding compute_mode_effective_charge_fl_Inr [OF fb b t]
    using d by (cases do_normalize)
      (simp_all add: zmode_entry_fl_def fill_zstar_mode_fl_nth [OF t n i] z sqrt_norm_fl_def Let_def)
qed

text \<open>
  The example crystal with zero Born charges: the entry \<open>(0, 1)\<close> of the tensor at grid
  point 0 and the normalized charge of mode 4 in direction 0, in a table that held ones,
  are zeros.
\<close>

theorem zero_born_charges_witness:
  "map_option is_zero
     (dielec_entry_fl
        (compute_dielectric_function_fl fl_exact c2 dyn_zero sys0 3 omega0 eval0 evec_fl0 allocate3_fl)
        0 0 1) = Some True \<and>
   map_option is_zero
     (zmode_entry_fl
        (compute_mode_effective_charge_fl fl_exact c2 ext0 dyn_zero sys0 zstar_mode_fl0 True) 4 0)
     = Some True"
proof -
  note n = neval_dyn_zero
  have "\<forall>m. 3 \<le> m \<and> m < neval dyn_zero \<longrightarrow>
          fsub fl_exact (Num (eval0 m)) (w2_tmp_fl fl_exact c2 (omega0 0)) \<noteq> NaN \<and>
          \<not> is_zero (fsub fl_exact (Num (eval0 m)) (w2_tmp_fl fl_exact c2 (omega0 0)))"
    by (simp add: w2_tmp_exact fsub_exact eval0_def omega0_def)
  moreover have "table_fits_fl 6 zstar_mode_fl0"
    by (simp add: table_fits_fl_def zstar_mode_fl0_def list_all_length)
  ultimately show ?thesis
    using zero_born_charges [where zstar = "\<lambda>a i k. 0" and dyn = dyn_zero and k = 0
        and nomega_in = 3 and i = 0 and j = 1 and fl = fl_exact and sys = sys0 and evec = evec_fl0
        and eval = eval0 and c = c2 and omega = omega0 and dielec_out = allocate3_fl and ext = ext0
        and zm = zstar_mode_fl0 and n = 4 and do_normalize = True]
    by (simp add: n born_ready_zero evec_fl0_finite factor_fl0 evec_amu_fl0 sqrt_norm_fl0
        file_born_dyn_zero borncharge_dyn_zero)
qed

text \<open>
  At grid point 2 of the same crystal the computed denominator of mode 3 is zero, and
  the entry \<open>(0, 0)\<close> of the tensor is NaN, not a zero, although all Born charges are zero.
\<close>

theorem zero_born_charges_pole:
  "borncharge dyn_zero = Some (\<lambda>a i k. 0) \<and>
   fsub fl_exact (Num (eval0 3)) (w2_tmp_fl fl_exact c2 (omega0 2)) = Num 0 \<and>
   dielec_entry_fl pole_result 2 0 0 = Some NaN \<and>
   map_option is_zero (dielec_entry_fl pole_result 2 0 0) = Some False"
  by (simp add: pole_entries borncharge_dyn_zero w2_tmp_exact fsub_exact eval0_def omega0_def)

section \<open>The frequency grid\<close>




lemma grid_quotient_dos0: "grid_quotient fl_exact (21 / 2) 0 (1 / 2) = Num 21"
  by (simp add: grid_quotient_def fsub_exact fdiv_exact)

lemma read_grid_dos0: "read_grid fl_exact dos0 enabled0 = Inr root0"
  by (simp add: read_grid_def dos0_def grid_quotient_dos0 root0_def enabled0_def
      set_default_variables_def)

lemma flag_enabled0: "calc_dielectric_constant enabled0 = 1"
  by (simp add: enabled0_def)

lemma flag_root0: "calc_dielectric_constant root0 = 1"
  by (simp add: root0_def enabled0_def)






lemma init_no_born:
  "init fl_exact 0 dos0 ext0 enabled0 dyn_no_born enabled0 =
     \<lparr>calls = broadcasts @
               [Exitall ''Dielec::init()'' ''BORNINFO must be set when DIELEC = 1.''],
      state = (dyn_no_born, root0),
      ended = Some (ExitAll ''Dielec::init()'' ''BORNINFO must be set when DIELEC = 1.'')\<rparr>"
  by (simp add: init_def read_grid_dos0 MPI_Bcast_def file_born_no_born flag_root0)




section \<open>A missing Born charge file\<close>

text \<open>
  C6. If the Born charge file is not configured, \<open>compute_mode_effective_charge\<close> calls
  \<open>exitall\<close> with its own name and the message that BORNINFO must be set, as the first
  and only call, with \<open>dynamical\<close> and the table unchanged. \<open>init\<close> on the process of rank 0,
  with the flag \<open>calc_dielectric_constant\<close> set and the conversion of the grid quotient
  defined, calls \<open>exitall\<close> with the name \<open>Dielec::init()\<close> and the same message after the
  five broadcasts, as the last call: the grid is not allocated and the Born charges are
  not loaded, but \<open>emin\<close>, \<open>emax\<close>, \<open>delta_e\<close> and \<open>nomega\<close> have been overwritten with
  the grid of \<open>Dos\<close>; \<open>omega_grid\<close> and \<open>dielec\<close> are as before.
\<close>

theorem missing_born_file_exits:
  assumes "file_born dyn = []"
  shows "compute_mode_effective_charge_run fl c ext dyn sys zstar_mode do_normalize =
           \<lparr>calls = [Exitall ''Dielec::compute_mode_effective_charge()''
                       ''BORNINFO must be set when DIELEC = 1.''],
            state = (dyn, zstar_mode),
            ended = Some (ExitAll ''Dielec::compute_mode_effective_charge()''
                            ''BORNINFO must be set when DIELEC = 1.'')\<rparr> \<and>
         (calc_dielectric_constant st \<noteq> 0 \<longrightarrow> read_grid fl d st = Inr st_read \<longrightarrow>
            init fl 0 d ext root_out dyn st =
              \<lparr>calls = broadcasts @
                  [Exitall ''Dielec::init()'' ''BORNINFO must be set when DIELEC = 1.''],
               state = (dyn, st_read),
               ended = Some (ExitAll ''Dielec::init()''
                               ''BORNINFO must be set when DIELEC = 1.'')\<rparr> \<and>
            omega_grid st_read = omega_grid st \<and> dielec st_read = dielec st \<and>
            emin st_read = dos_emin d \<and> emax st_read = dos_emax d \<and> delta_e st_read = dos_delta_e d)"
proof (intro conjI impI)
  show "compute_mode_effective_charge_run fl c ext dyn sys zstar_mode do_normalize =
           \<lparr>calls = [Exitall ''Dielec::compute_mode_effective_charge()''
                       ''BORNINFO must be set when DIELEC = 1.''],
            state = (dyn, zstar_mode),
            ended = Some (ExitAll ''Dielec::compute_mode_effective_charge()''
                            ''BORNINFO must be set when DIELEC = 1.'')\<rparr>"
    using assms by (simp add: compute_mode_effective_charge_run_def)
next
  assume e: "calc_dielectric_constant st \<noteq> 0" and g: "read_grid fl d st = Inr st_read"
  from g have s: "calc_dielectric_constant st_read = calc_dielectric_constant st"
    "omega_grid st_read = omega_grid st" "dielec st_read = dielec st" "emin st_read = dos_emin d"
    "emax st_read = dos_emax d" "delta_e st_read = dos_delta_e d"
    by (auto simp: read_grid_def Let_def split: sum.splits)
  have b: "MPI_Bcast st_read st_read = st_read" by (simp add: MPI_Bcast_def)
  show "init fl 0 d ext root_out dyn st =
              \<lparr>calls = broadcasts @
                  [Exitall ''Dielec::init()'' ''BORNINFO must be set when DIELEC = 1.''],
               state = (dyn, st_read),
               ended = Some (ExitAll ''Dielec::init()''
                               ''BORNINFO must be set when DIELEC = 1.'')\<rparr>"
    using e assms s(1) by (simp add: init_def g b)
  show "omega_grid st_read = omega_grid st" "dielec st_read = dielec st" "emin st_read = dos_emin d"
    "emax st_read = dos_emax d" "delta_e st_read = dos_delta_e d"
    by (fact s)+
qed

text \<open>The example crystal without a Born charge file, and the grid from 0 to 10.5.\<close>

theorem missing_born_file_exits_witness:
  "compute_mode_effective_charge_run fl_exact c2 ext0 dyn_no_born sys0 zstar_mode_fl0 False =
     \<lparr>calls = [Exitall ''Dielec::compute_mode_effective_charge()''
                 ''BORNINFO must be set when DIELEC = 1.''],
      state = (dyn_no_born, zstar_mode_fl0),
      ended = Some (ExitAll ''Dielec::compute_mode_effective_charge()''
                      ''BORNINFO must be set when DIELEC = 1.'')\<rparr> \<and>
   init fl_exact 0 dos0 ext0 enabled0 dyn_no_born enabled0 =
     \<lparr>calls = [Bcast ''calc_dielectric_constant'', Bcast ''nomega'', Bcast ''emin'',
               Bcast ''emax'', Bcast ''delta_e'',
               Exitall ''Dielec::init()'' ''BORNINFO must be set when DIELEC = 1.''],
      state = (dyn_no_born, root0),
      ended = Some (ExitAll ''Dielec::init()'' ''BORNINFO must be set when DIELEC = 1.'')\<rparr> \<and>
   omega_grid root0 = None"
proof -
  note w = missing_born_file_exits [where dyn = dyn_no_born and fl = fl_exact and c = c2
      and ext = ext0 and sys = sys0 and zstar_mode = zstar_mode_fl0 and do_normalize = False
      and st = enabled0 and d = dos0 and st_read = root0 and root_out = enabled0,
      OF file_born_no_born]
  have i: "init fl_exact 0 dos0 ext0 enabled0 dyn_no_born enabled0 =
     \<lparr>calls = broadcasts @
               [Exitall ''Dielec::init()'' ''BORNINFO must be set when DIELEC = 1.''],
      state = (dyn_no_born, root0),
      ended = Some (ExitAll ''Dielec::init()'' ''BORNINFO must be set when DIELEC = 1.'')\<rparr>"
    using w by (simp add: flag_enabled0 read_grid_dos0)
  have o: "omega_grid root0 = None"
    by (simp add: root0_def enabled0_def set_default_variables_def)
  show ?thesis
    using conjunct1 [OF w] i o by (simp add: broadcasts_def)
qed

text \<open>
  When \<open>init\<close> exits there, it has made five calls before \<open>exitall\<close> and has changed
  \<open>nomega\<close> from 1 to 21 and \<open>emax\<close> from 1 to 10.5.
\<close>

theorem init_exits_after_partial_work:
  "nomega (snd (state (init fl_exact 0 dos0 ext0 enabled0 dyn_no_born enabled0))) = 21 \<and>
   nomega enabled0 = 1 \<and>
   emax (snd (state (init fl_exact 0 dos0 ext0 enabled0 dyn_no_born enabled0))) = 21 / 2 \<and>
   emax enabled0 = 1 \<and>
   length (calls (init fl_exact 0 dos0 ext0 enabled0 dyn_no_born enabled0)) = 6 \<and>
   ended (init fl_exact 0 dos0 ext0 enabled0 dyn_no_born enabled0) =
     Some (ExitAll ''Dielec::init()'' ''BORNINFO must be set when DIELEC = 1.'')"
  unfolding init_no_born
  by (simp add: root0_def broadcasts_def enabled0_def set_default_variables_def)

end
